theory Spec2Isabelle
  imports Main "HOL-Library.AList"
begin

text \<open>
  A model of the homebridge-nextdns plugin: \<open>platform.ts\<close> in its later revision (the one
  with \<open>getNextDNSProfileData\<close> and a \<open>try\<close>/\<open>catch\<close> around every request; the repository
  also holds an earlier revision of the file without them) and \<open>blockedDomainAccessory.ts\<close>.
\<close>

section \<open>JavaScript values and the data model\<close>

text \<open>
  The plugin is TypeScript running on Node. Values whose static type is \<open>any\<close> (the
  persisted \<open>accessory.context\<close> blob, the result of a property lookup on a plain object)
  are modelled by \<open>jsval\<close>; \<open>JObject\<close> stands for any object or function, which is all the
  code ever observes of one (its truthiness).
\<close>

datatype jsval = JUndefined | JNull | JBool bool | JNum int | JStr string | JObject

text \<open>JavaScript's \<open>!!v\<close>.\<close>

fun truthy :: "jsval \<Rightarrow> bool" where
  "truthy JUndefined = False"
| "truthy JNull = False"
| "truthy (JBool b) = b"
| "truthy (JNum n) = (n \<noteq> 0)"
| "truthy (JStr s) = (s \<noteq> [])"
| "truthy JObject = True"

text \<open>A value of a declared type that may be \<open>null\<close> or \<open>undefined\<close> at run time.\<close>

datatype 'a nullable = Null | Undefined | Value 'a

text \<open>The remote record \<open>{ id: string; active: boolean }\<close>.\<close>

record DenylistEntry =
  entry_id :: string
  active :: bool

text \<open>
  \<open>json.data\<close>, at the type the code casts the payload to:
  \<open>{ denylist: Array<{ id: string; active: boolean }> }\<close>. The member may be missing,
  which the code itself tests for (\<open>data?.denylist\<close>).
\<close>

record ProfileData =
  denylist :: "DenylistEntry list nullable"

text \<open>
  What \<open>await response.json()\<close> does: it rejects (the body is not JSON), or it yields an
  object whose \<open>data\<close> member is \<open>null\<close>, absent or a \<open>ProfileData\<close>.
\<close>

datatype body = Unparseable | Parsed "ProfileData nullable"

text \<open>
  What \<open>await fetch(...)\<close> does: it rejects (network error), or it yields a response with
  its \<open>ok\<close> flag, its \<open>statusText\<close> and its body.
\<close>

datatype fetch_outcome = Rejected | Response bool string body

datatype http_method = GET | PATCH | POST

record request =
  req_method :: http_method
  url :: string
  x_api_key :: "string option"
  content_type :: "string option"
  req_body :: "(string \<times> jsval) list option"

text \<open>The network, seen from the plugin: each request has an outcome.\<close>

type_synonym network = "request \<Rightarrow> fetch_outcome"

datatype error = TypeError | FetchError | SyntaxError

datatype level = Debug | Warn | Error

record PlatformConfig =
  name :: "string option"
  apiKey :: "string option"
  profileId :: "string option"
  blockedDomains :: "string list option"

text \<open>\<open>!v\<close> for a configuration string: missing or empty.\<close>

definition falsy :: "string option \<Rightarrow> bool" where
  "falsy v = (case v of None \<Rightarrow> True | Some s \<Rightarrow> s = [])"

text \<open>A configuration value inside a template literal: \<open>undefined\<close> prints as such.\<close>

definition str_of :: "string option \<Rightarrow> string" where
  "str_of v = (case v of None \<Rightarrow> ''undefined'' | Some s \<Rightarrow> s)"

text \<open>The Switch service of an accessory: its Name and On characteristics.\<close>

record SwitchService =
  Name :: string
  On :: bool

text \<open>
  A \<open>PlatformAccessory\<close> object of the host: its UUID, its persisted context blob
  \<open>{domain, displayName, isOn}\<close>, the three characteristics of its AccessoryInformation
  service that the plugin writes, and its Switch service when it has one.
\<close>

record PlatformAccessory =
  UUID :: string
  displayName :: string
  context_domain :: "string option"
  context_displayName :: string
  context_isOn :: jsval
  Manufacturer :: string
  Model :: string
  SerialNumber :: string
  Switch :: "SwitchService option"

text \<open>
  The handler object of \<open>blockedDomainAccessory.ts\<close>: its cached boolean and a reference to
  the accessory it was built for.
\<close>

record BlockedDomainAccessory =
  isOn :: bool
  accessory :: nat

text \<open>A call of an async method whose promise nobody awaits, named by the method and its argument.\<close>

datatype call = BlockDomain "string option" | UnblockDomain "string option"

text \<open>
  The platform object together with the part of the host it acts on. Accessory objects
  live in \<open>heap\<close> and are named by reference, since the map of restored accessories and a
  handler may hold the same object; \<open>next_ref\<close> is the next unused reference. The two
  \<open>Map\<close>s are association lists in insertion order (\<open>Map.set\<close> is \<open>AList.update\<close>,
  \<open>Map.get\<close> is \<open>map_of\<close>). The remaining fields record the
  effects: log lines, HTTP requests issued, the accessories handed to
  \<open>registerPlatformAccessories\<close>, \<open>updatePlatformAccessories\<close> and
  \<open>unregisterPlatformAccessories\<close>, the delays of the pending \<open>setTimeout(syncConfig, _)\<close>
  timers, the calls left running unawaited, and whether a \<open>didFinishLaunching\<close> listener
  was installed.
\<close>

record NextDNSPlatform =
  config :: PlatformConfig
  heap :: "nat \<Rightarrow> PlatformAccessory"
  next_ref :: nat
  accessories :: "(string \<times> nat) list"
  BlockedDomainAccessories :: "(string \<times> BlockedDomainAccessory) list"
  discoveredCacheUUIDs :: "string list"
  logged :: "(level \<times> string) list"
  requests :: "request list"
  registered :: "nat list"
  updated :: "nat list"
  unregistered :: "nat list"
  timers :: "nat list"
  detached :: "call list"
  launch_listener :: bool

definition log_line :: "level \<Rightarrow> string \<Rightarrow> NextDNSPlatform \<Rightarrow> NextDNSPlatform" where
  "log_line l s p = p\<lparr>logged := logged p @ [(l, s)]\<rparr>"

definition send :: "request \<Rightarrow> NextDNSPlatform \<Rightarrow> NextDNSPlatform" where
  "send r p = p\<lparr>requests := requests p @ [r]\<rparr>"

section \<open>platform.ts: helpers\<close>

text \<open>
  \<open>api.hap.uuid.generate\<close> belongs to the host; it is a parameter \<open>gen\<close> of everything
  that derives an identifier.
\<close>

definition getUUID :: "(string \<Rightarrow> string) \<Rightarrow> string \<Rightarrow> string" where
  "getUUID gen domain = gen (''next-dns-blocked-domain:'' @ domain)"

text \<open>
  The regular expression classes \<open>\w\<close> and \<open>\s\<close> and the case mappings, on ASCII
  (tab, line feed, vertical tab, form feed, carriage return and space are the white space).
\<close>

definition is_word_char :: "char \<Rightarrow> bool" where
  "is_word_char c =
     (c \<in> set ''abcdefghijklmnopqrstuvwxyzABCDEFGHIJKLMNOPQRSTUVWXYZ0123456789_'')"

definition is_space_char :: "char \<Rightarrow> bool" where
  "is_space_char c = (c \<in> set [CHR 0x09, CHR 0x0A, CHR 0x0B, CHR 0x0C, CHR 0x0D, CHR '' ''])"

definition toUpperCase :: "char \<Rightarrow> char" where
  "toUpperCase c =
     (case map_of (zip ''abcdefghijklmnopqrstuvwxyz'' ''ABCDEFGHIJKLMNOPQRSTUVWXYZ'') c of
        Some u \<Rightarrow> u
      | None \<Rightarrow> c)"

definition toLowerCase :: "char \<Rightarrow> char" where
  "toLowerCase c =
     (case map_of (zip ''ABCDEFGHIJKLMNOPQRSTUVWXYZ'' ''abcdefghijklmnopqrstuvwxyz'') c of
        Some l \<Rightarrow> l
      | None \<Rightarrow> c)"

text \<open>
  \<open>str.replace(/\w\S*/g, text => text.charAt(0).toUpperCase() + text.substring(1).toLowerCase())\<close>:
  the flag says whether the scan is inside a match.
\<close>

fun titleCase :: "bool \<Rightarrow> string \<Rightarrow> string" where
  "titleCase inside [] = []"
| "titleCase True (c # cs) =
     (if is_space_char c then c # titleCase False cs else toLowerCase c # titleCase True cs)"
| "titleCase False (c # cs) =
     (if is_word_char c then toUpperCase c # titleCase True cs else c # titleCase False cs)"

definition toTitleCase :: "string \<Rightarrow> string" where
  "toTitleCase str = titleCase False str"

section \<open>The Remote Profile Fetcher\<close>

text \<open>
  An async function either resolves (\<open>Inr\<close>) or rejects (\<open>Inl\<close>, with the exception and
  the state at the moment it was thrown).
\<close>

type_synonym 'a promise = "error \<times> NextDNSPlatform + 'a"

definition profile_request :: "string option \<Rightarrow> string option \<Rightarrow> request" where
  "profile_request key pid =
     \<lparr>req_method = GET, url = ''https://api.nextdns.io/profiles/'' @ str_of pid,
      x_api_key = key, content_type = None, req_body = None\<rparr>"

text \<open>The body of the \<open>try\<close> block of \<open>getNextDNSProfileData\<close>.\<close>

definition getNextDNSProfileData_try ::
  "network \<Rightarrow> NextDNSPlatform \<Rightarrow> string option \<Rightarrow> string option
     \<Rightarrow> (NextDNSPlatform \<times> ProfileData nullable) promise" where
  "getNextDNSProfileData_try net platform key pid =
     (let p = send (profile_request key pid) platform
      in case net (profile_request key pid) of
           Rejected \<Rightarrow> Inl (FetchError, p)
         | Response ok statusText b \<Rightarrow>
             if \<not> ok then Inr (log_line Warn (''Failed to fetch profile: '' @ statusText) p, Null)
             else (case b of
                     Unparseable \<Rightarrow> Inl (SyntaxError, p)
                   | Parsed d \<Rightarrow> Inr (p, d)))"

text \<open>The whole function: the \<open>catch\<close> clause turns every exception into a warning and \<open>null\<close>.\<close>

definition getNextDNSProfileData ::
  "network \<Rightarrow> NextDNSPlatform \<Rightarrow> string option \<Rightarrow> string option
     \<Rightarrow> (NextDNSPlatform \<times> ProfileData nullable) promise" where
  "getNextDNSProfileData net platform key pid =
     (case getNextDNSProfileData_try net platform key pid of
        Inl (e, p) \<Rightarrow>
          Inr (log_line Warn
                 ''Failed to fetch profile. Ensure the API key and profile ID are correct and the network is reachable.''
                 p, Null)
      | Inr r \<Rightarrow> Inr r)"

section \<open>The Domain Mutators\<close>

definition patch_request :: "NextDNSPlatform \<Rightarrow> string option \<Rightarrow> bool \<Rightarrow> request" where
  "patch_request p domain a =
     \<lparr>req_method = PATCH,
      url = ''https://api.nextdns.io/profiles/'' @ str_of (profileId (config p)) @ ''/denylist/''
            @ str_of domain,
      x_api_key = apiKey (config p), content_type = Some ''application/json'',
      req_body = Some [(''active'', JBool a)]\<rparr>"

text \<open>\<open>JSON.stringify\<close> leaves out a member whose value is \<open>undefined\<close>.\<close>

definition post_request :: "NextDNSPlatform \<Rightarrow> string option \<Rightarrow> request" where
  "post_request p domain =
     \<lparr>req_method = POST,
      url = ''https://api.nextdns.io/profiles/'' @ str_of (profileId (config p)) @ ''/denylist'',
      x_api_key = apiKey (config p), content_type = Some ''application/json'',
      req_body = Some ((case domain of None \<Rightarrow> [] | Some d \<Rightarrow> [(''id'', JStr d)]) @
                       [(''active'', JBool True)])\<rparr>"

definition blockDomain_try :: "network \<Rightarrow> NextDNSPlatform \<Rightarrow> string option \<Rightarrow> NextDNSPlatform promise" where
  "blockDomain_try net p domain =
     (let p1 = send (patch_request p domain True) p
      in case net (patch_request p domain True) of
           Rejected \<Rightarrow> Inl (FetchError, p1)
         | Response ok statusText b \<Rightarrow>
             if \<not> ok then
               (let p2 = send (post_request p domain) p1
                in case net (post_request p domain) of
                     Rejected \<Rightarrow> Inl (FetchError, p2)
                   | Response ok' statusText' b' \<Rightarrow> Inr p2)
             else Inr p1)"

definition blockDomain :: "network \<Rightarrow> NextDNSPlatform \<Rightarrow> string option \<Rightarrow> NextDNSPlatform promise" where
  "blockDomain net p domain =
     (case blockDomain_try net p domain of
        Inl (e, p') \<Rightarrow> Inr (log_line Warn ''Failed to block domain:'' p')
      | Inr p' \<Rightarrow> Inr p')"

definition unblockDomain_try :: "network \<Rightarrow> NextDNSPlatform \<Rightarrow> string option \<Rightarrow> NextDNSPlatform promise" where
  "unblockDomain_try net p domain =
     (let p1 = send (patch_request p domain False) p
      in case net (patch_request p domain False) of
           Rejected \<Rightarrow> Inl (FetchError, p1)
         | Response ok statusText b \<Rightarrow> Inr p1)"

definition unblockDomain :: "network \<Rightarrow> NextDNSPlatform \<Rightarrow> string option \<Rightarrow> NextDNSPlatform promise" where
  "unblockDomain net p domain =
     (case unblockDomain_try net p domain of
        Inl (e, p') \<Rightarrow> Inr (log_line Warn ''Failed to unblock domain:'' p')
      | Inr p' \<Rightarrow> Inr p')"

text \<open>
  An async function runs in its caller's turn up to its first \<open>await\<close>. For \<open>blockDomain\<close>
  and \<open>unblockDomain\<close> that is the call of \<open>fetch\<close> with the PATCH: the request is on its way
  when the caller gets the promise back. The rest of the body runs when the network answers.
\<close>

definition blockDomain_begin :: "NextDNSPlatform \<Rightarrow> string option \<Rightarrow> NextDNSPlatform" where
  "blockDomain_begin p domain = send (patch_request p domain True) p"

definition blockDomain_resume_try ::
  "network \<Rightarrow> NextDNSPlatform \<Rightarrow> string option \<Rightarrow> NextDNSPlatform promise" where
  "blockDomain_resume_try net p1 domain =
     (case net (patch_request p1 domain True) of
        Rejected \<Rightarrow> Inl (FetchError, p1)
      | Response ok statusText b \<Rightarrow>
          if \<not> ok then
            (let p2 = send (post_request p1 domain) p1
             in case net (post_request p1 domain) of
                  Rejected \<Rightarrow> Inl (FetchError, p2)
                | Response ok' statusText' b' \<Rightarrow> Inr p2)
          else Inr p1)"

definition blockDomain_resume ::
  "network \<Rightarrow> NextDNSPlatform \<Rightarrow> string option \<Rightarrow> NextDNSPlatform promise" where
  "blockDomain_resume net p1 domain =
     (case blockDomain_resume_try net p1 domain of
        Inl (e, p') \<Rightarrow> Inr (log_line Warn ''Failed to block domain:'' p')
      | Inr p' \<Rightarrow> Inr p')"

definition unblockDomain_begin :: "NextDNSPlatform \<Rightarrow> string option \<Rightarrow> NextDNSPlatform" where
  "unblockDomain_begin p domain = send (patch_request p domain False) p"

definition unblockDomain_resume_try ::
  "network \<Rightarrow> NextDNSPlatform \<Rightarrow> string option \<Rightarrow> NextDNSPlatform promise" where
  "unblockDomain_resume_try net p1 domain =
     (case net (patch_request p1 domain False) of
        Rejected \<Rightarrow> Inl (FetchError, p1)
      | Response ok statusText b \<Rightarrow> Inr p1)"

definition unblockDomain_resume ::
  "network \<Rightarrow> NextDNSPlatform \<Rightarrow> string option \<Rightarrow> NextDNSPlatform promise" where
  "unblockDomain_resume net p1 domain =
     (case unblockDomain_resume_try net p1 domain of
        Inl (e, p') \<Rightarrow> Inr (log_line Warn ''Failed to unblock domain:'' p')
      | Inr p' \<Rightarrow> Inr p')"

section \<open>blockedDomainAccessory.ts: the Switch Accessory\<close>

text \<open>
  The constructor, for the accessory object at reference \<open>r\<close>: it writes the three
  information characteristics, takes the Switch service or adds one (a new service has an
  empty Name and On = false), seeds \<open>isOn\<close> with \<open>context.isOn === true\<close> and names the
  service. It returns the new handler.
\<close>

definition BlockedDomainAccessory_new ::
  "NextDNSPlatform \<Rightarrow> nat \<Rightarrow> NextDNSPlatform \<times> BlockedDomainAccessory" where
  "BlockedDomainAccessory_new platform r =
     (let p1 = log_line Debug ''BlockedDomainAccessory'' platform;
          a1 = (heap p1 r)\<lparr>Manufacturer := ''NextDNS'', Model := ''NextDNS'',
                           SerialNumber := ''NextDNS''\<rparr>;
          service = (case Switch a1 of Some s \<Rightarrow> s | None \<Rightarrow> \<lparr>Name = [], On = False\<rparr>);
          this_isOn = (context_isOn a1 = JBool True);
          a2 = a1\<lparr>Switch := Some (service\<lparr>Name := context_displayName a1\<rparr>)\<rparr>
      in (p1\<lparr>heap := (heap p1)(r := a2)\<rparr>, \<lparr>isOn = this_isOn, accessory = r\<rparr>))"

text \<open>
  \<open>setOn\<close> is a method of a handler object, and the handler objects are the ones the
  registry holds: a handler is named here by the key it has in \<open>BlockedDomainAccessories\<close>,
  and \<open>this.isOn = value\<close> changes that one object. (A key without a handler names no
  object; calling a method on it is a TypeError.) Then \<open>setOn\<close> calls \<open>blockDomain\<close> or
  \<open>unblockDomain\<close> without \<open>await\<close>: the call runs up to its first \<open>await\<close>, which sends the
  PATCH, and what is left of it stays behind in \<open>detached\<close>. \<open>setOn\<close> resolves with no
  answer of the network in hand.
\<close>

definition setOn :: "NextDNSPlatform \<Rightarrow> string \<Rightarrow> bool \<Rightarrow> NextDNSPlatform promise" where
  "setOn platform key v =
     (case map_of (BlockedDomainAccessories platform) key of
        None \<Rightarrow> Inl (TypeError, platform)
      | Some this \<Rightarrow>
          (let p1 = log_line Debug ''setOn'' platform;
               this1 = this\<lparr>isOn := v\<rparr>;
               p2 = p1\<lparr>BlockedDomainAccessories :=
                       AList.update key this1 (BlockedDomainAccessories p1)\<rparr>;
               domain = context_domain (heap p2 (accessory this1))
           in if isOn this1
              then Inr ((blockDomain_begin p2 domain)
                          \<lparr>detached := detached p2 @ [BlockDomain domain]\<rparr>)
              else Inr ((unblockDomain_begin p2 domain)
                          \<lparr>detached := detached p2 @ [UnblockDomain domain]\<rparr>)))"

definition getOn :: "BlockedDomainAccessory \<Rightarrow> bool promise" where
  "getOn this = Inr (isOn this)"

text \<open>The rest of a detached call, run when the network answers its PATCH.\<close>

fun run_call :: "network \<Rightarrow> NextDNSPlatform \<Rightarrow> call \<Rightarrow> NextDNSPlatform promise" where
  "run_call net p (BlockDomain d) = blockDomain_resume net p d"
| "run_call net p (UnblockDomain d) = unblockDomain_resume net p d"

section \<open>platform.ts: discovery\<close>

text \<open>
  The constructor. Without \<open>apiKey\<close> or \<open>profileId\<close> it warns and returns before the
  \<open>didFinishLaunching\<close> listener is installed. (The warning's text ends with the
  configuration as JSON, left out here.)
\<close>

definition blank_accessory :: PlatformAccessory where
  "blank_accessory =
     \<lparr>UUID = [], displayName = [], context_domain = None, context_displayName = [],
      context_isOn = JUndefined, Manufacturer = ''Default-Manufacturer'',
      Model = ''Default-Model'', SerialNumber = ''Default-SerialNumber'', Switch = None\<rparr>"

definition NextDNSPlatform_new :: "PlatformConfig \<Rightarrow> NextDNSPlatform" where
  "NextDNSPlatform_new cfg =
     (let this = \<lparr>config = cfg, heap = (\<lambda>r. blank_accessory), next_ref = 0, accessories = [],
                  BlockedDomainAccessories = [], discoveredCacheUUIDs = [],
                  logged = [(Debug, ''config'')], requests = [], registered = [], updated = [],
                  unregistered = [], timers = [], detached = [], launch_listener = False\<rparr>
      in if falsy (apiKey (config this)) \<or> falsy (profileId (config this))
         then log_line Warn
                (str_of (name cfg) @ '' is not configured correctly. apiKey and profileId are required.'')
                this
         else (log_line Debug (''Finished initializing platform: '' @ str_of (name (config this))) this)
                \<lparr>launch_listener := True\<rparr>)"

text \<open>
  \<open>configureAccessory\<close>: the host hands over an accessory restored from its cache; the
  object gets a reference and enters the map under its UUID.
\<close>

definition configureAccessory :: "NextDNSPlatform \<Rightarrow> PlatformAccessory \<Rightarrow> NextDNSPlatform" where
  "configureAccessory p a =
     (let p1 = log_line Debug (''Loading accessory from cache: '' @ displayName a) p;
          r = next_ref p1
      in p1\<lparr>heap := (heap p1)(r := a), next_ref := Suc r,
            accessories := AList.update (UUID a) r (accessories p1)\<rparr>)"

text \<open>
  The \<open>Record<string, boolean>\<close> that \<open>reduce\<close> builds starts as the object literal \<open>{}\<close>,
  whose prototype is \<open>Object.prototype\<close>. Its own properties are an association list.
  Assigning a boolean to \<open>__proto__\<close> runs the inherited setter, which ignores it; reading a
  key that is not an own property finds the inherited member (a function or an object) when
  \<open>Object.prototype\<close> has one, and \<open>undefined\<close> otherwise.
\<close>

definition Object_prototype :: "string list" where
  "Object_prototype =
     [''constructor'', ''__defineGetter__'', ''__defineSetter__'', ''hasOwnProperty'',
      ''__lookupGetter__'', ''__lookupSetter__'', ''isPrototypeOf'', ''propertyIsEnumerable'',
      ''toString'', ''valueOf'', ''__proto__'', ''toLocaleString'']"

definition record_set :: "(string \<times> bool) list \<Rightarrow> string \<Rightarrow> bool \<Rightarrow> (string \<times> bool) list" where
  "record_set acc k v = (if k = ''__proto__'' then acc else AList.update k v acc)"

definition record_get :: "(string \<times> bool) list \<Rightarrow> string \<Rightarrow> jsval" where
  "record_get acc k =
     (case map_of acc k of
        Some b \<Rightarrow> JBool b
      | None \<Rightarrow> if k \<in> set Object_prototype then JObject else JUndefined)"

text \<open>
  The body of the loop over \<open>blockedDomains\<close>. A new accessory is handed to the host's
  \<open>registerPlatformAccessories\<close>, which does not call \<open>configureAccessory\<close> back: the code
  never puts it into \<open>this.accessories\<close>.
\<close>

definition discoverDevice ::
  "(string \<Rightarrow> string) \<Rightarrow> (string \<times> bool) list \<Rightarrow> NextDNSPlatform \<Rightarrow> string \<Rightarrow> NextDNSPlatform" where
  "discoverDevice gen nextDNSBlockedDomains p blockedDomain =
     (let uuid = getUUID gen blockedDomain;
          p5 =
            (case map_of (accessories p) uuid of
               Some r \<Rightarrow>
                 (let p1 = log_line Debug
                             (''Restoring existing accessory from cache: '' @ displayName (heap p r)) p;
                      a = (heap p1 r)\<lparr>context_isOn :=
                             JBool (truthy (record_get nextDNSBlockedDomains blockedDomain))\<rparr>;
                      p2 = p1\<lparr>heap := (heap p1)(r := a), updated := updated p1 @ [r]\<rparr>;
                      (p3, handler) = BlockedDomainAccessory_new p2 r
                  in p3\<lparr>BlockedDomainAccessories :=
                          AList.update uuid handler (BlockedDomainAccessories p3)\<rparr>)
             | None \<Rightarrow>
                 (let p1 = log_line Debug (''Adding new accessory: '' @ uuid) p;
                      dn = toTitleCase (takeWhile (\<lambda>c. c \<noteq> CHR ''.'') blockedDomain @ '' block'');
                      r = next_ref p1;
                      a = blank_accessory\<lparr>UUID := uuid, displayName := dn,
                            context_domain := Some blockedDomain, context_displayName := dn,
                            context_isOn :=
                              JBool (truthy (record_get nextDNSBlockedDomains blockedDomain))\<rparr>;
                      p2 = p1\<lparr>heap := (heap p1)(r := a), next_ref := Suc r\<rparr>;
                      (p3, handler) = BlockedDomainAccessory_new p2 r;
                      p4 = p3\<lparr>BlockedDomainAccessories :=
                               AList.update uuid handler (BlockedDomainAccessories p3)\<rparr>
                  in p4\<lparr>registered := registered p4 @ [r]\<rparr>))
      in p5\<lparr>discoveredCacheUUIDs := discoveredCacheUUIDs p5 @ [uuid]\<rparr>)"

text \<open>The body of the loop over the restored accessories.\<close>

definition removeStale :: "NextDNSPlatform \<Rightarrow> string \<times> nat \<Rightarrow> NextDNSPlatform" where
  "removeStale p entry =
     (case entry of (uuid, r) \<Rightarrow>
        if uuid \<notin> set (discoveredCacheUUIDs p)
        then (log_line Debug
                (''Removing existing accessory from cache: '' @ displayName (heap p r)) p)
               \<lparr>unregistered := unregistered p @ [r]\<rparr>
        else p)"

section \<open>platform.ts: the Reconciliation Loop\<close>

text \<open>
  \<open>this.accessories.get(key)?.getService(this.Service.Switch)\<close>: the accessory's reference
  and its Switch service, when the map has the key and the accessory has the service.
\<close>

definition getService_Switch :: "NextDNSPlatform \<Rightarrow> string \<Rightarrow> (nat \<times> SwitchService) option" where
  "getService_Switch p key =
     (case map_of (accessories p) key of
        None \<Rightarrow> None
      | Some r \<Rightarrow> (case Switch (heap p r) of None \<Rightarrow> None | Some s \<Rightarrow> Some (r, s)))"

text \<open>\<open>service.updateCharacteristic(this.Characteristic.On, v)\<close> on the accessory at \<open>r\<close>.\<close>

definition updateCharacteristic_On ::
  "nat \<Rightarrow> SwitchService \<Rightarrow> bool \<Rightarrow> NextDNSPlatform \<Rightarrow> NextDNSPlatform" where
  "updateCharacteristic_On r s v p =
     p\<lparr>heap := (heap p)(r := (heap p r)\<lparr>Switch := Some (s\<lparr>On := v\<rparr>)\<rparr>)\<rparr>"

text \<open>
  The callback of \<open>denylist.forEach\<close>. It is async but has no \<open>await\<close>, so it runs to its
  end at once, entry after entry.
\<close>

definition syncEntry ::
  "(string \<Rightarrow> string) \<Rightarrow> NextDNSPlatform \<Rightarrow> DenylistEntry \<Rightarrow> NextDNSPlatform" where
  "syncEntry gen p blockedDomain =
     (let p1 =
            (case getService_Switch p (getUUID gen (entry_id blockedDomain)) of
               None \<Rightarrow> p
             | Some (r, service) \<Rightarrow>
                 if On service \<noteq> active blockedDomain
                 then updateCharacteristic_On r service (active blockedDomain)
                        (log_line Debug (''updating accessory '' @ entry_id blockedDomain) p)
                 else p)
      in case map_of (BlockedDomainAccessories p1) (getUUID gen (entry_id blockedDomain)) of
           None \<Rightarrow> p1
         | Some blockedDomainAccessory \<Rightarrow>
             (let p2 =
                    (case getService_Switch p1 ''adf'' of
                       None \<Rightarrow> p1
                     | Some (r, service) \<Rightarrow>
                         updateCharacteristic_On r service (active blockedDomain) p1)
              in p2\<lparr>BlockedDomainAccessories :=
                      AList.update (getUUID gen (entry_id blockedDomain))
                        (blockedDomainAccessory\<lparr>isOn := active blockedDomain\<rparr>)
                        (BlockedDomainAccessories p2)\<rparr>))"

text \<open>
  The \<open>try\<close> block of \<open>syncConfig\<close>. \<open>data?.denylist.forEach(...)\<close> does nothing when \<open>data\<close>
  is \<open>null\<close> or \<open>undefined\<close>, and throws a TypeError when \<open>data\<close> is an object without a
  \<open>denylist\<close>.
\<close>

definition syncConfig_try ::
  "(string \<Rightarrow> string) \<Rightarrow> network \<Rightarrow> NextDNSPlatform \<Rightarrow> NextDNSPlatform promise" where
  "syncConfig_try gen net this =
     (case getNextDNSProfileData net this (apiKey (config this)) (profileId (config this)) of
        Inl x \<Rightarrow> Inl x
      | Inr (p1, data) \<Rightarrow>
          (case data of
             Null \<Rightarrow> Inr p1
           | Undefined \<Rightarrow> Inr p1
           | Value d \<Rightarrow>
               (case denylist d of
                  Value entries \<Rightarrow> Inr (foldl (syncEntry gen) p1 entries)
                | Null \<Rightarrow> Inl (TypeError, p1)
                | Undefined \<Rightarrow> Inl (TypeError, p1))))"

text \<open>One tick: the \<open>try\<close> block, the \<open>catch\<close> clause, then \<open>setTimeout(syncConfig, 60000)\<close>.\<close>

definition syncConfig ::
  "(string \<Rightarrow> string) \<Rightarrow> network \<Rightarrow> NextDNSPlatform \<Rightarrow> NextDNSPlatform promise" where
  "syncConfig gen net this =
     (let p0 = log_line Debug ''syncConfig called'' this;
          p1 = (case syncConfig_try gen net p0 of
                  Inl (e, q) \<Rightarrow> log_line Warn ''Failed to fetch profile:'' q
                | Inr q \<Rightarrow> q)
      in Inr (p1\<lparr>timers := timers p1 @ [60000]\<rparr>))"

definition bootstrapAsyncUpdates ::
  "(string \<Rightarrow> string) \<Rightarrow> network \<Rightarrow> NextDNSPlatform \<Rightarrow> NextDNSPlatform promise" where
  "bootstrapAsyncUpdates gen net this = syncConfig gen net this"

text \<open>
  The loop as the timer drives it: the call made by \<open>bootstrapAsyncUpdates\<close>, then \<open>n\<close>
  expirations. An expiration takes the oldest pending timer and runs \<open>syncConfig\<close>; with no
  timer pending nothing runs any more. \<open>nets k\<close> is the network at tick \<open>k\<close>.
\<close>

fun run_loop ::
  "(string \<Rightarrow> string) \<Rightarrow> (nat \<Rightarrow> network) \<Rightarrow> nat \<Rightarrow> NextDNSPlatform \<Rightarrow> NextDNSPlatform promise" where
  "run_loop gen nets 0 p = bootstrapAsyncUpdates gen (nets 0) p"
| "run_loop gen nets (Suc n) p =
     (case run_loop gen nets n p of
        Inl x \<Rightarrow> Inl x
      | Inr q \<Rightarrow>
          (case timers q of
             [] \<Rightarrow> Inr q
           | t # ts \<Rightarrow> syncConfig gen (nets (Suc n)) (q\<lparr>timers := ts\<rparr>)))"

text \<open>
  \<open>discoverDevices\<close>. The last statement starts the loop; its first tick is run here to
  its end.
\<close>

definition discoverDevices ::
  "(string \<Rightarrow> string) \<Rightarrow> network \<Rightarrow> NextDNSPlatform \<Rightarrow> NextDNSPlatform promise" where
  "discoverDevices gen net this =
     (let domains = (case blockedDomains (config this) of None \<Rightarrow> [] | Some ds \<Rightarrow> ds)
      in case getNextDNSProfileData net this (apiKey (config this)) (profileId (config this)) of
           Inl x \<Rightarrow> Inl x
         | Inr (p1, data) \<Rightarrow>
             (let entries =
                    (case data of
                       Value d \<Rightarrow> (case denylist d of Value xs \<Rightarrow> xs | Null \<Rightarrow> [] | Undefined \<Rightarrow> [])
                     | Null \<Rightarrow> []
                     | Undefined \<Rightarrow> []);
                  nextDNSBlockedDomains =
                    foldl (\<lambda>acc domain. record_set acc (entry_id domain) (active domain)) [] entries;
                  p2 = log_line Debug ''nextDNSBlockedDomains'' p1;
                  p3 = foldl (discoverDevice gen nextDNSBlockedDomains) p2 domains;
                  p4 = foldl removeStale p3 (accessories p3)
              in bootstrapAsyncUpdates gen net p4))"

text \<open>
  The host fires \<open>didFinishLaunching\<close>: the listener, when the constructor installed one,
  runs \<open>discoverDevices\<close>.
\<close>

definition didFinishLaunching ::
  "(string \<Rightarrow> string) \<Rightarrow> network \<Rightarrow> NextDNSPlatform \<Rightarrow> NextDNSPlatform promise" where
  "didFinishLaunching gen net p =
     (if launch_listener p
      then discoverDevices gen net (log_line Debug ''Executed didFinishLaunching callback'' p)
      else Inr p)"

section \<open>platform.ts, earlier revision: the same three functions without try/catch\<close>

text \<open>
  In the earlier revision of \<open>platform.ts\<close> the remote read is written out in
  \<open>discoverDevices\<close> and in \<open>syncConfig\<close>: \<open>await fetch(...)\<close>, then
  \<open>await response.json()\<close>, then \<open>data.data.denylist\<close>, with no test of \<open>response.ok\<close> and
  no \<open>try\<close>/\<open>catch\<close>. The request, the callback of \<open>forEach\<close> and the two loops of
  \<open>discoverDevices\<close> are the same as in the later revision, and so is the constructor but
  for the level of the line it logs when the configuration is incomplete (\<open>log.error\<close>).
\<close>

definition syncConfig_earlier ::
  "(string \<Rightarrow> string) \<Rightarrow> network \<Rightarrow> NextDNSPlatform \<Rightarrow> NextDNSPlatform promise" where
  "syncConfig_earlier gen net this =
     (let p0 = log_line Debug ''syncConfig called'' this;
          p1 = send (profile_request (apiKey (config p0)) (profileId (config p0))) p0
      in case net (profile_request (apiKey (config p0)) (profileId (config p0))) of
           Rejected \<Rightarrow> Inl (FetchError, p1)
         | Response ok statusText b \<Rightarrow>
             (case b of
                Unparseable \<Rightarrow> Inl (SyntaxError, p1)
              | Parsed data \<Rightarrow>
                  (case data of
                     Null \<Rightarrow> Inl (TypeError, p1)
                   | Undefined \<Rightarrow> Inl (TypeError, p1)
                   | Value d \<Rightarrow>
                       (case denylist d of
                          Null \<Rightarrow> Inl (TypeError, p1)
                        | Undefined \<Rightarrow> Inl (TypeError, p1)
                        | Value entries \<Rightarrow>
                            (let p2 = foldl (syncEntry gen) p1 entries
                             in Inr (p2\<lparr>timers := timers p2 @ [60000]\<rparr>))))))"

text \<open>
  \<open>bootstrapAsyncUpdates\<close> calls \<open>syncConfig()\<close> without \<open>await\<close>: when the tick rejects,
  nobody is told, and the state is the one the exception left.
\<close>

definition bootstrapAsyncUpdates_earlier ::
  "(string \<Rightarrow> string) \<Rightarrow> network \<Rightarrow> NextDNSPlatform \<Rightarrow> NextDNSPlatform promise" where
  "bootstrapAsyncUpdates_earlier gen net this =
     (case syncConfig_earlier gen net this of
        Inl (e, q) \<Rightarrow> Inr q
      | Inr q \<Rightarrow> Inr q)"

text \<open>The loop of the earlier revision as the timer drives it, as \<open>run_loop\<close> above.\<close>

fun run_loop_earlier ::
  "(string \<Rightarrow> string) \<Rightarrow> (nat \<Rightarrow> network) \<Rightarrow> nat \<Rightarrow> NextDNSPlatform \<Rightarrow> NextDNSPlatform promise" where
  "run_loop_earlier gen nets 0 p = bootstrapAsyncUpdates_earlier gen (nets 0) p"
| "run_loop_earlier gen nets (Suc n) p =
     (case run_loop_earlier gen nets n p of
        Inl x \<Rightarrow> Inl x
      | Inr q \<Rightarrow>
          (case timers q of
             [] \<Rightarrow> Inr q
           | t # ts \<Rightarrow>
               (case syncConfig_earlier gen (nets (Suc n)) (q\<lparr>timers := ts\<rparr>) of
                  Inl (e, q') \<Rightarrow> Inr q'
                | Inr q' \<Rightarrow> Inr q')))"

definition discoverDevices_earlier ::
  "(string \<Rightarrow> string) \<Rightarrow> network \<Rightarrow> NextDNSPlatform \<Rightarrow> NextDNSPlatform promise" where
  "discoverDevices_earlier gen net this =
     (let domains = (case blockedDomains (config this) of None \<Rightarrow> [] | Some ds \<Rightarrow> ds);
          p1 = send (profile_request (apiKey (config this)) (profileId (config this))) this
      in case net (profile_request (apiKey (config this)) (profileId (config this))) of
           Rejected \<Rightarrow> Inl (FetchError, p1)
         | Response ok statusText b \<Rightarrow>
             (case b of
                Unparseable \<Rightarrow> Inl (SyntaxError, p1)
              | Parsed data \<Rightarrow>
                  (case data of
                     Null \<Rightarrow> Inl (TypeError, p1)
                   | Undefined \<Rightarrow> Inl (TypeError, p1)
                   | Value d \<Rightarrow>
                       (case denylist d of
                          Null \<Rightarrow> Inl (TypeError, p1)
                        | Undefined \<Rightarrow> Inl (TypeError, p1)
                        | Value entries \<Rightarrow>
                            (let nextDNSBlockedDomains =
                                   foldl (\<lambda>acc domain.
                                            record_set acc (entry_id domain) (active domain))
                                     [] entries;
                                 p2 = log_line Debug ''nextDNSBlockedDomains'' p1;
                                 p3 = foldl (discoverDevice gen nextDNSBlockedDomains) p2 domains;
                                 p4 = foldl removeStale p3 (accessories p3)
                             in bootstrapAsyncUpdates_earlier gen net p4)))))"

definition unblockDomain_earlier ::
  "network \<Rightarrow> NextDNSPlatform \<Rightarrow> string option \<Rightarrow> NextDNSPlatform promise" where
  "unblockDomain_earlier net p domain =
     (let p1 = send (patch_request p domain False) p
      in case net (patch_request p domain False) of
           Rejected \<Rightarrow> Inl (FetchError, p1)
         | Response ok statusText b \<Rightarrow> Inr p1)"

section \<open>Notions used by the statements\<close>

text \<open>A request that came back with a response whose \<open>ok\<close> flag is false.\<close>

definition non_success :: "fetch_outcome \<Rightarrow> bool" where
  "non_success out = (case out of Rejected \<Rightarrow> False | Response ok statusText b \<Rightarrow> \<not> ok)"

text \<open>
  The failure modes of the remote read: the request never got an answer, the status is not
  a success, or the body is not JSON.
\<close>

definition fetch_failed :: "fetch_outcome \<Rightarrow> bool" where
  "fetch_failed out =
     (case out of Rejected \<Rightarrow> True | Response ok statusText b \<Rightarrow> \<not> ok \<or> b = Unparseable)"

text \<open>
  Every accessory in the map of restored accessories sits under its own UUID
  (\<open>configureAccessory\<close> stores it so), every handler in the registry sits under the UUID
  of its accessory, and every reference in use has been allocated.
\<close>

definition keyed_by_UUID :: "NextDNSPlatform \<Rightarrow> bool" where
  "keyed_by_UUID p =
     (list_all (\<lambda>(k, r). UUID (heap p r) = k \<and> r < next_ref p) (accessories p) \<and>
      list_all (\<lambda>(u, h). UUID (heap p (accessory h)) = u \<and> accessory h < next_ref p)
        (BlockedDomainAccessories p))"

text \<open>Sample inputs: an identifier generator, a configuration, a remote service.\<close>

definition plain_uuid :: "string \<Rightarrow> string" where
  "plain_uuid s = s"

definition cfg0 :: PlatformConfig where
  "cfg0 = \<lparr>name = Some ''NextDNS'', apiKey = Some ''key'', profileId = Some ''abc123'',
           blockedDomains = Some [''reddit.com'']\<rparr>"

definition remote :: "DenylistEntry list \<Rightarrow> network" where
  "remote entries = (\<lambda>r. Response True ''OK'' (Parsed (Value \<lparr>denylist = Value entries\<rparr>)))"

text \<open>
  A network that answers nothing, a service whose answers are not JSON, and a service that
  answers every request with an error status.
\<close>

definition dead_network :: network where
  "dead_network = (\<lambda>r. Rejected)"

definition not_json :: network where
  "not_json = (\<lambda>r. Response True ''OK'' Unparseable)"

definition server_error :: network where
  "server_error = (\<lambda>r. Response False ''Internal Server Error'' Unparseable)"

text \<open>An accessory as the host restores it from its cache.\<close>

definition cached_reddit :: PlatformAccessory where
  "cached_reddit =
     blank_accessory\<lparr>UUID := ''next-dns-blocked-domain:reddit.com'',
       displayName := ''Reddit Block'', context_domain := Some ''reddit.com'',
       context_displayName := ''Reddit Block'', context_isOn := JBool False,
       Switch := Some \<lparr>Name = ''Reddit Block'', On = False\<rparr>\<rparr>"

section \<open>What each step leaves alone\<close>

lemma log_line_fields [simp]:
  "config (log_line l s p) = config p"
  "heap (log_line l s p) = heap p"
  "next_ref (log_line l s p) = next_ref p"
  "accessories (log_line l s p) = accessories p"
  "BlockedDomainAccessories (log_line l s p) = BlockedDomainAccessories p"
  "discoveredCacheUUIDs (log_line l s p) = discoveredCacheUUIDs p"
  "requests (log_line l s p) = requests p"
  "timers (log_line l s p) = timers p"
  "logged (log_line l s p) = logged p @ [(l, s)]"
  by (simp_all add: log_line_def)

lemma send_fields [simp]:
  "config (send r p) = config p"
  "heap (send r p) = heap p"
  "next_ref (send r p) = next_ref p"
  "accessories (send r p) = accessories p"
  "BlockedDomainAccessories (send r p) = BlockedDomainAccessories p"
  "discoveredCacheUUIDs (send r p) = discoveredCacheUUIDs p"
  "requests (send r p) = requests p @ [r]"
  "timers (send r p) = timers p"
  "logged (send r p) = logged p"
  by (simp_all add: send_def)

lemma updateCharacteristic_On_fields [simp]:
  "config (updateCharacteristic_On r s v p) = config p"
  "next_ref (updateCharacteristic_On r s v p) = next_ref p"
  "accessories (updateCharacteristic_On r s v p) = accessories p"
  "BlockedDomainAccessories (updateCharacteristic_On r s v p) = BlockedDomainAccessories p"
  "requests (updateCharacteristic_On r s v p) = requests p"
  "timers (updateCharacteristic_On r s v p) = timers p"
  "UUID (heap (updateCharacteristic_On r s v p) r') = UUID (heap p r')"
  by (simp_all add: updateCharacteristic_On_def)

lemma updateCharacteristic_On_other:
  "r' \<noteq> r \<Longrightarrow> heap (updateCharacteristic_On r s v p) r' = heap p r'"
  by (simp add: updateCharacteristic_On_def)

lemma getService_Switch_ref:
  "getService_Switch p k = Some (r, s) \<Longrightarrow> map_of (accessories p) k = Some r"
  by (auto simp: getService_Switch_def split: option.splits)

lemma syncEntry_frame [simp]:
  "config (syncEntry gen p e) = config p"
  "next_ref (syncEntry gen p e) = next_ref p"
  "accessories (syncEntry gen p e) = accessories p"
  "requests (syncEntry gen p e) = requests p"
  "timers (syncEntry gen p e) = timers p"
  "UUID (heap (syncEntry gen p e) r) = UUID (heap p r)"
  by (simp_all add: syncEntry_def Let_def split: option.splits prod.splits)

lemma syncEntry_registry:
  "BlockedDomainAccessories (syncEntry gen p e) =
     (case map_of (BlockedDomainAccessories p) (getUUID gen (entry_id e)) of
        None \<Rightarrow> BlockedDomainAccessories p
      | Some h \<Rightarrow> AList.update (getUUID gen (entry_id e)) (h\<lparr>isOn := active e\<rparr>)
                   (BlockedDomainAccessories p))"
  by (simp add: syncEntry_def Let_def split: option.splits prod.splits)

lemma syncEntry_heap_other:
  assumes "map_of (accessories p) (getUUID gen (entry_id e)) \<noteq> Some r"
    and "map_of (accessories p) ''adf'' \<noteq> Some r"
  shows "heap (syncEntry gen p e) r = heap p r"
  using assms
  by (auto simp: syncEntry_def Let_def updateCharacteristic_On_other
      split: option.splits prod.splits dest!: getService_Switch_ref)

lemma foldl_syncEntry_frame [simp]:
  "config (foldl (syncEntry gen) p es) = config p"
  "next_ref (foldl (syncEntry gen) p es) = next_ref p"
  "accessories (foldl (syncEntry gen) p es) = accessories p"
  "requests (foldl (syncEntry gen) p es) = requests p"
  "timers (foldl (syncEntry gen) p es) = timers p"
  "UUID (heap (foldl (syncEntry gen) p es) r) = UUID (heap p r)"
  by (induction es arbitrary: p) simp_all

section \<open>The fetcher\<close>

lemma getNextDNSProfileData_ok:
  "net (profile_request key pid) = Response True st (Parsed d) \<Longrightarrow>
   getNextDNSProfileData net p key pid = Inr (send (profile_request key pid) p, d)"
  by (simp add: getNextDNSProfileData_def getNextDNSProfileData_try_def Let_def)

lemma getNextDNSProfileData_failed:
  "fetch_failed (net (profile_request key pid)) \<Longrightarrow>
   \<exists>msg. getNextDNSProfileData net p key pid =
     Inr (p\<lparr>requests := requests p @ [profile_request key pid],
             logged := logged p @ [(Warn, msg)]\<rparr>, Null)"
  by (auto simp: getNextDNSProfileData_def getNextDNSProfileData_try_def fetch_failed_def
        send_def log_line_def Let_def
      split: fetch_outcome.splits body.splits)

lemma getNextDNSProfileData_resolves:
  "\<exists>q d. getNextDNSProfileData net p key pid = Inr (q, d)"
  by (cases "getNextDNSProfileData_try net p key pid")
     (auto simp: getNextDNSProfileData_def)

lemma getNextDNSProfileData_frame:
  assumes "getNextDNSProfileData net p key pid = Inr (q, d)"
  shows "config q = config p" "heap q = heap p" "accessories q = accessories p"
    "BlockedDomainAccessories q = BlockedDomainAccessories p"
    "requests q = requests p @ [profile_request key pid]" "timers q = timers p"
    "next_ref q = next_ref p"
  using assms
  by (auto simp: getNextDNSProfileData_def getNextDNSProfileData_try_def Let_def
      split: fetch_outcome.splits body.splits if_splits)

text \<open>
  The fetcher of the later revision resolves for every outcome of its request, never
  rejects. When the request fails (no answer, a status that is not a success, a body that is
  not JSON) it resolves with \<open>null\<close>, and the state differs from the one before the call by
  the request sent and one warning in the log. A body that is JSON is not inspected: its
  \<open>data\<close> member is returned as it is.
\<close>

lemma fetcher_folds_failures_into_null:
  "(\<exists>r. getNextDNSProfileData net p key pid = Inr r) \<and>
   (fetch_failed (net (profile_request key pid)) \<longrightarrow>
      (\<exists>msg. getNextDNSProfileData net p key pid =
         Inr (p\<lparr>requests := requests p @ [profile_request key pid],
                 logged := logged p @ [(Warn, msg)]\<rparr>, Null)))"
  using getNextDNSProfileData_failed getNextDNSProfileData_resolves by blast

lemma fetcher_folds_failures_into_null_instance:
  "fetch_failed (Response True ''OK'' Unparseable) \<and>
   (\<exists>q. getNextDNSProfileData (\<lambda>r. Response True ''OK'' Unparseable) (NextDNSPlatform_new cfg0)
           (Some ''key'') (Some ''abc123'') = Inr (q, Null) \<and>
         last (logged q) =
           (Warn, ''Failed to fetch profile. Ensure the API key and profile ID are correct and the network is reachable.''))"
  using fetcher_folds_failures_into_null
    [of "\<lambda>r. Response True ''OK'' Unparseable" "NextDNSPlatform_new cfg0" "Some ''key''"
        "Some ''abc123''"]
  by (simp add: fetch_failed_def getNextDNSProfileData_def getNextDNSProfileData_try_def)

text \<open>
  C4. In the earlier revision the remote read has no boundary of its own. With a network
  that does not answer, \<open>discoverDevices\<close> rejects with the error of \<open>fetch\<close>: the exception
  leaves the function, and the log holds the two debug lines of the constructor and no
  warning. A body that is not JSON leaves it in the same way, with the error of
  \<open>response.json()\<close>.
\<close>

theorem earlier_read_throws_out_of_discoverDevices:
  "discoverDevices_earlier plain_uuid dead_network (NextDNSPlatform_new cfg0) =
     Inl (FetchError,
          send (profile_request (Some ''key'') (Some ''abc123'')) (NextDNSPlatform_new cfg0)) \<and>
   discoverDevices_earlier plain_uuid not_json (NextDNSPlatform_new cfg0) =
     Inl (SyntaxError,
          send (profile_request (Some ''key'') (Some ''abc123'')) (NextDNSPlatform_new cfg0)) \<and>
   logged (send (profile_request (Some ''key'') (Some ''abc123'')) (NextDNSPlatform_new cfg0)) =
     [(Debug, ''config''), (Debug, ''Finished initializing platform: NextDNS'')]"
proof -
  have c: "config (NextDNSPlatform_new cfg0) = cfg0"
    by (simp add: NextDNSPlatform_new_def cfg0_def falsy_def Let_def log_line_def)
  have k: "apiKey cfg0 = Some ''key''" "profileId cfg0 = Some ''abc123''"
    by (simp_all add: cfg0_def)
  have l: "logged (NextDNSPlatform_new cfg0) =
             [(Debug, ''config''), (Debug, ''Finished initializing platform: NextDNS'')]"
    by (simp add: NextDNSPlatform_new_def cfg0_def falsy_def Let_def log_line_def str_of_def)
  show ?thesis
    by (simp add: discoverDevices_earlier_def Let_def c k l dead_network_def not_json_def)
qed

section \<open>The mutators\<close>

text \<open>
  C3. \<open>blockDomain\<close> resolves, and the requests it sends are: the PATCH with body
  \<open>{active: true}\<close>, followed by the POST with body \<open>{id: domain, active: true}\<close> exactly when
  the PATCH came back with a response that is not a success, and by nothing otherwise.
\<close>

theorem blockDomain_patch_then_one_post:
  "\<exists>p'. blockDomain net p domain = Inr p' \<and>
     requests p' = requests p @
       (if non_success (net (patch_request p domain True))
        then [patch_request p domain True, post_request p domain]
        else [patch_request p domain True]) \<and>
     req_method (patch_request p domain True) = PATCH \<and>
     req_body (patch_request p domain True) = Some [(''active'', JBool True)] \<and>
     req_method (post_request p domain) = POST \<and>
     req_body (post_request p (Some d)) = Some [(''id'', JStr d), (''active'', JBool True)]"
  by (auto simp: blockDomain_def blockDomain_try_def non_success_def send_def Let_def
        patch_request_def post_request_def log_line_def
      split: fetch_outcome.splits)

theorem blockDomain_patch_then_one_post_witness:
  "non_success (Response False ''Not Found'' Unparseable) \<and>
   (\<exists>p'. blockDomain (\<lambda>r. Response False ''Not Found'' Unparseable) (NextDNSPlatform_new cfg0)
           (Some ''reddit.com'') = Inr p' \<and>
     map req_method (requests p') = [PATCH, POST])"
  using blockDomain_patch_then_one_post
    [of "\<lambda>r. Response False ''Not Found'' Unparseable" "NextDNSPlatform_new cfg0"
        "Some ''reddit.com''" "''reddit.com''"]
  by (auto simp: non_success_def NextDNSPlatform_new_def cfg0_def falsy_def log_line_def Let_def)

text \<open>
  C6, as amended. In the later revision \<open>unblockDomain\<close> resolves whatever the network
  does, and the only request it sends is the PATCH with body \<open>{active: false}\<close>: no POST. A
  request that is rejected is caught and adds one warning to the log; a response, success
  or not, is not looked at and adds nothing to the log.
\<close>

theorem unblockDomain_only_patch:
  "\<exists>p'. unblockDomain net p domain = Inr p' \<and>
     requests p' = requests p @ [patch_request p domain False] \<and>
     req_method (patch_request p domain False) = PATCH \<and>
     req_body (patch_request p domain False) = Some [(''active'', JBool False)] \<and>
     logged p' =
       (if net (patch_request p domain False) = Rejected
        then logged p @ [(Warn, ''Failed to unblock domain:'')] else logged p)"
  by (auto simp: unblockDomain_def unblockDomain_try_def send_def Let_def patch_request_def
        log_line_def
      split: fetch_outcome.splits)

theorem unblockDomain_only_patch_witness:
  "\<exists>p'. unblockDomain (\<lambda>r. Rejected) (NextDNSPlatform_new cfg0) (Some ''reddit.com'') = Inr p' \<and>
     map req_method (requests p') = [PATCH] \<and>
     last (logged p') = (Warn, ''Failed to unblock domain:'')"
  using unblockDomain_only_patch [of "\<lambda>r. Rejected" "NextDNSPlatform_new cfg0" "Some ''reddit.com''"]
  by (auto simp: NextDNSPlatform_new_def cfg0_def falsy_def log_line_def Let_def)

text \<open>
  The claim as it was stated, that any failure of the PATCH is caught and logged, fails on
  two inputs. In the later revision a PATCH answered with an error status leaves the log
  as it was. In the earlier revision \<open>unblockDomain\<close> has no \<open>try\<close>/\<open>catch\<close>: with a
  network that does not answer it rejects.
\<close>

theorem unblockDomain_failure_not_logged_counterexample:
  "unblockDomain server_error (NextDNSPlatform_new cfg0) (Some ''reddit.com'') =
     Inr (send (patch_request (NextDNSPlatform_new cfg0) (Some ''reddit.com'') False)
            (NextDNSPlatform_new cfg0)) \<and>
   logged (send (patch_request (NextDNSPlatform_new cfg0) (Some ''reddit.com'') False)
            (NextDNSPlatform_new cfg0)) =
     logged (NextDNSPlatform_new cfg0) \<and>
   unblockDomain_earlier dead_network (NextDNSPlatform_new cfg0) (Some ''reddit.com'') =
     Inl (FetchError,
          send (patch_request (NextDNSPlatform_new cfg0) (Some ''reddit.com'') False)
            (NextDNSPlatform_new cfg0))"
  by (simp add: unblockDomain_def unblockDomain_try_def unblockDomain_earlier_def Let_def
        server_error_def dead_network_def)

section \<open>The Switch Accessory\<close>

lemma patch_request_send:
  "patch_request (send r p) d a = patch_request p d a"
  "post_request (send r p) d = post_request p d"
  by (simp_all add: patch_request_def post_request_def)

text \<open>The two halves of each mutator make up the whole.\<close>

lemma blockDomain_in_two_steps:
  "blockDomain net p d = blockDomain_resume net (blockDomain_begin p d) d"
  by (simp add: blockDomain_def blockDomain_try_def blockDomain_resume_def
        blockDomain_resume_try_def blockDomain_begin_def Let_def patch_request_send
      split: fetch_outcome.splits)

lemma unblockDomain_in_two_steps:
  "unblockDomain net p d = unblockDomain_resume net (unblockDomain_begin p d) d"
  by (simp add: unblockDomain_def unblockDomain_try_def unblockDomain_resume_def
        unblockDomain_resume_try_def unblockDomain_begin_def Let_def patch_request_send
      split: fetch_outcome.splits)

lemma blockDomain_resume_effect:
  "\<exists>q. blockDomain_resume net p d = Inr q \<and> heap q = heap p \<and>
     BlockedDomainAccessories q = BlockedDomainAccessories p \<and>
     accessories q = accessories p \<and> next_ref q = next_ref p \<and>
     requests q = requests p @
       (if non_success (net (patch_request p d True)) then [post_request p d] else []) \<and>
     logged q = logged p @
       (if net (patch_request p d True) = Rejected \<or>
           (non_success (net (patch_request p d True)) \<and> net (post_request p d) = Rejected)
        then [(Warn, ''Failed to block domain:'')] else [])"
  by (auto simp: blockDomain_resume_def blockDomain_resume_try_def non_success_def Let_def
      split: fetch_outcome.splits)

lemma unblockDomain_resume_effect:
  "\<exists>q. unblockDomain_resume net p d = Inr q \<and> heap q = heap p \<and>
     BlockedDomainAccessories q = BlockedDomainAccessories p \<and>
     accessories q = accessories p \<and> next_ref q = next_ref p \<and>
     requests q = requests p \<and>
     logged q = logged p @
       (if net (patch_request p d False) = Rejected
        then [(Warn, ''Failed to unblock domain:'')] else [])"
  by (auto simp: unblockDomain_resume_def unblockDomain_resume_try_def Let_def
      split: fetch_outcome.splits)

text \<open>
  C2. Take the handler the registry holds under \<open>key\<close>, for an accessory whose domain is
  \<open>d\<close>, and any boolean \<open>v\<close>. \<open>setOn\<close> resolves, with no network outcome among its inputs.
  When it has, the registry holds that handler with \<open>isOn = v\<close>, so \<open>getOn\<close> returns \<open>v\<close>; one
  request has gone out, the PATCH of \<open>d\<close> with body \<open>{active: v}\<close>, which opens \<open>blockDomain\<close>
  when \<open>v\<close> is true and \<open>unblockDomain\<close> when \<open>v\<close> is false; and the rest of that call is left
  unawaited. Whatever the network then answers, the rest of the call resolves too: it sends
  the fallback POST exactly when \<open>v\<close> is true and the PATCH came back without success, it
  logs one warning exactly when a request was rejected, and it leaves the handler with
  \<open>isOn = v\<close> and every accessory as it was.
\<close>

theorem setOn_optimistic:
  assumes "map_of (BlockedDomainAccessories p) key = Some this"
    and "d = context_domain (heap p (accessory this))"
  shows "\<exists>p'. setOn p key v = Inr p' \<and>
     map_of (BlockedDomainAccessories p') key = Some (this\<lparr>isOn := v\<rparr>) \<and>
     getOn (this\<lparr>isOn := v\<rparr>) = Inr v \<and>
     heap p' = heap p \<and>
     requests p' = requests p @ [patch_request p d v] \<and>
     req_method (patch_request p d v) = PATCH \<and>
     req_body (patch_request p d v) = Some [(''active'', JBool v)] \<and>
     detached p' = detached p @ [if v then BlockDomain d else UnblockDomain d] \<and>
     (\<forall>net. \<exists>q. run_call net p' (last (detached p')) = Inr q \<and>
        map_of (BlockedDomainAccessories q) key = Some (this\<lparr>isOn := v\<rparr>) \<and>
        heap q = heap p \<and>
        requests q = requests p' @
          (if v \<and> non_success (net (patch_request p d True)) then [post_request p d] else []) \<and>
        logged q = logged p' @
          (if net (patch_request p d v) = Rejected \<or>
              (v \<and> non_success (net (patch_request p d True)) \<and>
               net (post_request p d) = Rejected)
           then [(Warn, if v then ''Failed to block domain:'' else ''Failed to unblock domain:'')]
           else []))"
proof -
  let ?p2 = "(log_line Debug ''setOn'' p)\<lparr>BlockedDomainAccessories :=
               AList.update key (this\<lparr>isOn := v\<rparr>) (BlockedDomainAccessories p)\<rparr>"
  let ?c = "if v then BlockDomain d else UnblockDomain d"
  let ?p' = "(send (patch_request p d v) ?p2)\<lparr>detached := detached p @ [?c]\<rparr>"
  have cfg: "config ?p2 = config p" "config ?p' = config p" by simp_all
  have pr: "patch_request ?p2 d a = patch_request p d a" "patch_request ?p' d a = patch_request p d a"
    "post_request ?p' d = post_request p d" for a
    by (simp_all add: patch_request_def post_request_def)
  have 1: "setOn p key v = Inr ?p'"
    using assms
    by (cases v)
       (simp_all add: setOn_def Let_def blockDomain_begin_def unblockDomain_begin_def
          patch_request_def log_line_def send_def)
  have 2: "map_of (BlockedDomainAccessories ?p') key = Some (this\<lparr>isOn := v\<rparr>)"
    by (simp add: update_conv' send_def)
  have 3: "heap ?p' = heap p" "requests ?p' = requests p @ [patch_request p d v]"
    "detached ?p' = detached p @ [?c]"
    by (simp_all add: send_def log_line_def)
  have 4: "req_method (patch_request p d v) = PATCH"
    "req_body (patch_request p d v) = Some [(''active'', JBool v)]"
    by (simp_all add: patch_request_def)
  have 5: "\<exists>q. run_call net ?p' (last (detached ?p')) = Inr q \<and>
        map_of (BlockedDomainAccessories q) key = Some (this\<lparr>isOn := v\<rparr>) \<and>
        heap q = heap p \<and>
        requests q = requests ?p' @
          (if v \<and> non_success (net (patch_request p d True)) then [post_request p d] else []) \<and>
        logged q = logged ?p' @
          (if net (patch_request p d v) = Rejected \<or>
              (v \<and> non_success (net (patch_request p d True)) \<and>
               net (post_request p d) = Rejected)
           then [(Warn, if v then ''Failed to block domain:'' else ''Failed to unblock domain:'')]
           else [])" for net
  proof (cases v)
    case True
    from blockDomain_resume_effect [of net ?p' d]
    obtain q where q: "blockDomain_resume net ?p' d = Inr q" "heap q = heap ?p'"
      "BlockedDomainAccessories q = BlockedDomainAccessories ?p'"
      "requests q = requests ?p' @
         (if non_success (net (patch_request ?p' d True)) then [post_request ?p' d] else [])"
      "logged q = logged ?p' @
         (if net (patch_request ?p' d True) = Rejected \<or>
             (non_success (net (patch_request ?p' d True)) \<and> net (post_request ?p' d) = Rejected)
          then [(Warn, ''Failed to block domain:'')] else [])"
      by (elim exE conjE) (rule that, assumption+)
    have "run_call net ?p' (last (detached ?p')) = Inr q"
      using q(1) True by (simp add: 3)
    moreover have "map_of (BlockedDomainAccessories q) key = Some (this\<lparr>isOn := v\<rparr>)"
      using q(3) 2 by simp
    moreover have "heap q = heap p" using q(2) 3(1) by simp
    moreover have "requests q = requests ?p' @
          (if v \<and> non_success (net (patch_request p d True)) then [post_request p d] else [])"
      using q(4) True unfolding pr by simp
    moreover have "logged q = logged ?p' @
          (if net (patch_request p d v) = Rejected \<or>
              (v \<and> non_success (net (patch_request p d True)) \<and>
               net (post_request p d) = Rejected)
           then [(Warn, if v then ''Failed to block domain:'' else ''Failed to unblock domain:'')]
           else [])"
      using q(5) True unfolding pr by simp
    ultimately show ?thesis by blast
  next
    case False
    from unblockDomain_resume_effect [of net ?p' d]
    obtain q where q: "unblockDomain_resume net ?p' d = Inr q" "heap q = heap ?p'"
      "BlockedDomainAccessories q = BlockedDomainAccessories ?p'"
      "requests q = requests ?p'"
      "logged q = logged ?p' @
         (if net (patch_request ?p' d False) = Rejected
          then [(Warn, ''Failed to unblock domain:'')] else [])"
      by (elim exE conjE) (rule that, assumption+)
    have "run_call net ?p' (last (detached ?p')) = Inr q"
      using q(1) False by (simp add: 3)
    moreover have "map_of (BlockedDomainAccessories q) key = Some (this\<lparr>isOn := v\<rparr>)"
      using q(3) 2 by simp
    moreover have "heap q = heap p" using q(2) 3(1) by simp
    moreover have "requests q = requests ?p' @
          (if v \<and> non_success (net (patch_request p d True)) then [post_request p d] else [])"
      using q(4) False by simp
    moreover have "logged q = logged ?p' @
          (if net (patch_request p d v) = Rejected \<or>
              (v \<and> non_success (net (patch_request p d True)) \<and>
               net (post_request p d) = Rejected)
           then [(Warn, if v then ''Failed to block domain:'' else ''Failed to unblock domain:'')]
           else [])"
      using q(5) False unfolding pr by simp
    ultimately show ?thesis by blast
  qed
  show ?thesis
    apply (rule exI [of _ ?p'])
    apply (intro conjI allI)
            apply (rule 1)
           apply (rule 2)
          apply (simp add: getOn_def)
         apply (rule 3(1))
        apply (rule 3(2))
       apply (rule 4(1))
      apply (rule 4(2))
     apply (rule 3(3))
    apply (rule 5)
    done
qed

section \<open>The constructor\<close>

text \<open>
  C8. When \<open>apiKey\<close> or \<open>profileId\<close> is missing (or empty), the constructor returns a
  platform whose log holds the \<open>config\<close> debug line and one warning, with no
  \<open>didFinishLaunching\<close> listener; the host's \<open>didFinishLaunching\<close> then resolves and leaves
  that platform as it is: no request sent, no accessory registered, no handler built, no
  timer pending.
\<close>

theorem missing_credentials_no_discovery:
  assumes "falsy (apiKey cfg) \<or> falsy (profileId cfg)"
  shows "(\<exists>msg. logged (NextDNSPlatform_new cfg) = [(Debug, ''config''), (Warn, msg)]) \<and>
         \<not> launch_listener (NextDNSPlatform_new cfg) \<and>
         didFinishLaunching gen net (NextDNSPlatform_new cfg) = Inr (NextDNSPlatform_new cfg) \<and>
         requests (NextDNSPlatform_new cfg) = [] \<and>
         registered (NextDNSPlatform_new cfg) = [] \<and>
         BlockedDomainAccessories (NextDNSPlatform_new cfg) = [] \<and>
         timers (NextDNSPlatform_new cfg) = []"
  using assms
  by (auto simp: NextDNSPlatform_new_def didFinishLaunching_def log_line_def Let_def)

theorem missing_credentials_no_discovery_witness:
  "falsy (apiKey (cfg0\<lparr>apiKey := None\<rparr>)) \<and>
   logged (NextDNSPlatform_new (cfg0\<lparr>apiKey := None\<rparr>)) =
     [(Debug, ''config''),
      (Warn, ''NextDNS is not configured correctly. apiKey and profileId are required.'')] \<and>
   didFinishLaunching plain_uuid (remote []) (NextDNSPlatform_new (cfg0\<lparr>apiKey := None\<rparr>)) =
     Inr (NextDNSPlatform_new (cfg0\<lparr>apiKey := None\<rparr>))"
  using missing_credentials_no_discovery [of "cfg0\<lparr>apiKey := None\<rparr>" plain_uuid "remote []"]
  by (simp add: cfg0_def falsy_def NextDNSPlatform_new_def log_line_def str_of_def)

section \<open>The loop\<close>

lemma syncConfig_try_frame:
  assumes "syncConfig_try gen net p = Inr q \<or> syncConfig_try gen net p = Inl (e, q)"
  shows "timers q = timers p"
    "requests q = requests p @ [profile_request (apiKey (config p)) (profileId (config p))]"
    "accessories q = accessories p" "config q = config p" "next_ref q = next_ref p"
proof -
  obtain p1 d where g:
    "getNextDNSProfileData net p (apiKey (config p)) (profileId (config p)) = Inr (p1, d)"
    using getNextDNSProfileData_resolves by blast
  note f = getNextDNSProfileData_frame [OF g]
  from assms g f show "timers q = timers p"
    by (auto simp: syncConfig_try_def split: nullable.splits)
  from assms g f show
    "requests q = requests p @ [profile_request (apiKey (config p)) (profileId (config p))]"
    by (auto simp: syncConfig_try_def split: nullable.splits)
  from assms g f show "accessories q = accessories p"
    by (auto simp: syncConfig_try_def split: nullable.splits)
  from assms g f show "config q = config p"
    by (auto simp: syncConfig_try_def split: nullable.splits)
  from assms g f show "next_ref q = next_ref p"
    by (auto simp: syncConfig_try_def split: nullable.splits)
qed

lemma syncConfig_timer:
  "\<exists>q. syncConfig gen net p = Inr q \<and> timers q = timers p @ [60000]"
proof (cases "syncConfig_try gen net (log_line Debug ''syncConfig called'' p)")
  case (Inl x)
  obtain e q where x: "x = (e, q)" by (cases x)
  with Inl syncConfig_try_frame(1) [of gen net "log_line Debug ''syncConfig called'' p" q e]
  show ?thesis by (simp add: syncConfig_def)
next
  case (Inr q)
  with syncConfig_try_frame(1) [of gen net "log_line Debug ''syncConfig called'' p" q]
  show ?thesis by (simp add: syncConfig_def)
qed

lemma syncConfig_ok:
  assumes "net (profile_request (apiKey (config p)) (profileId (config p))) =
             Response True st (Parsed (Value \<lparr>denylist = Value es\<rparr>))"
  shows "syncConfig gen net p =
     Inr ((foldl (syncEntry gen)
            (send (profile_request (apiKey (config p)) (profileId (config p)))
               (log_line Debug ''syncConfig called'' p)) es)
          \<lparr>timers := timers p @ [60000]\<rparr>)"
proof -
  let ?p0 = "log_line Debug ''syncConfig called'' p"
  from assms have
    "getNextDNSProfileData net ?p0 (apiKey (config ?p0)) (profileId (config ?p0)) =
       Inr (send (profile_request (apiKey (config p)) (profileId (config p))) ?p0,
            Value \<lparr>denylist = Value es\<rparr>)"
    by (simp add: getNextDNSProfileData_ok)
  then show ?thesis
    by (simp add: syncConfig_def syncConfig_try_def)
qed

text \<open>
  C5. When the remote read of a tick fails, in any of its failure modes, \<open>syncConfig\<close>
  resolves, no accessory object (so no characteristic) and no handler (so no cached
  boolean) has changed, the only request sent is the read, and one more 60000 ms timer is
  pending.
\<close>

theorem failed_fetch_changes_nothing:
  assumes "fetch_failed (net (profile_request (apiKey (config p)) (profileId (config p))))"
  shows "\<exists>p'. syncConfig gen net p = Inr p' \<and>
           heap p' = heap p \<and>
           BlockedDomainAccessories p' = BlockedDomainAccessories p \<and>
           accessories p' = accessories p \<and>
           requests p' = requests p @ [profile_request (apiKey (config p)) (profileId (config p))] \<and>
           timers p' = timers p @ [60000]"
proof -
  let ?p0 = "log_line Debug ''syncConfig called'' p"
  from assms obtain msg where
    "getNextDNSProfileData net ?p0 (apiKey (config p)) (profileId (config p)) =
       Inr (?p0\<lparr>requests := requests ?p0 @ [profile_request (apiKey (config p)) (profileId (config p))],
               logged := logged ?p0 @ [(Warn, msg)]\<rparr>, Null)"
    using getNextDNSProfileData_failed by blast
  then show ?thesis
    by (simp add: syncConfig_def syncConfig_try_def)
qed

theorem failed_fetch_changes_nothing_witness:
  "fetch_failed (Response False ''Unauthorized'' Unparseable) \<and>
   (\<exists>p'. syncConfig plain_uuid (\<lambda>r. Response False ''Unauthorized'' Unparseable)
            (NextDNSPlatform_new cfg0) = Inr p' \<and>
          BlockedDomainAccessories p' = [] \<and> timers p' = [60000])"
  using failed_fetch_changes_nothing
    [of "\<lambda>r. Response False ''Unauthorized'' Unparseable" "NextDNSPlatform_new cfg0" plain_uuid]
  by (auto simp: fetch_failed_def NextDNSPlatform_new_def cfg0_def falsy_def)

text \<open>
  In the later revision every tick, whatever its fetch did, resolves with one more timer
  pending, of 60000 ms. So the loop started by \<open>bootstrapAsyncUpdates\<close> is still alive after
  any number \<open>n\<close> of timer expirations: it has resolved every tick and its latest timer, of
  60000 ms, is pending.
\<close>

lemma loop_reschedules_itself:
  "(\<exists>q. syncConfig gen net p = Inr q \<and> timers q = timers p @ [60000]) \<and>
   (\<exists>q. run_loop gen nets n p = Inr q \<and> timers q \<noteq> [] \<and> last (timers q) = 60000)"
proof
  show "\<exists>q. syncConfig gen net p = Inr q \<and> timers q = timers p @ [60000]"
    by (rule syncConfig_timer)
  show "\<exists>q. run_loop gen nets n p = Inr q \<and> timers q \<noteq> [] \<and> last (timers q) = 60000"
  proof (induction n)
    case 0
    obtain q where "syncConfig gen (nets 0) p = Inr q" "timers q = timers p @ [60000]"
      using syncConfig_timer by blast
    then show ?case by (simp add: bootstrapAsyncUpdates_def)
  next
    case (Suc n)
    then obtain q where q: "run_loop gen nets n p = Inr q" "timers q \<noteq> []" by blast
    then obtain t ts where ts: "timers q = t # ts" by (cases "timers q") auto
    obtain q' where "syncConfig gen (nets (Suc n)) (q\<lparr>timers := ts\<rparr>) = Inr q'"
      "timers q' = timers (q\<lparr>timers := ts\<rparr>) @ [60000]"
      using syncConfig_timer by blast
    with q ts show ?case by simp
  qed
qed

lemma loop_reschedules_itself_instance:
  "(\<exists>q. syncConfig plain_uuid (\<lambda>r. Rejected) (NextDNSPlatform_new cfg0) = Inr q \<and>
         timers q = [60000]) \<and>
   (\<exists>q. run_loop plain_uuid (\<lambda>k r. Rejected) 3 (NextDNSPlatform_new cfg0) = Inr q \<and>
         timers q \<noteq> [] \<and> last (timers q) = 60000)"
  using loop_reschedules_itself
    [of plain_uuid "\<lambda>r. Rejected" "NextDNSPlatform_new cfg0" "\<lambda>k r. Rejected" 3]
  by (simp add: NextDNSPlatform_new_def cfg0_def falsy_def)

text \<open>In the later revision every expiration runs a tick: \<open>n\<close> of them make \<open>n + 1\<close> reads.\<close>

lemma run_loop_reads:
  "\<exists>q. run_loop gen nets n p = Inr q \<and> timers q \<noteq> [] \<and>
        length (requests q) = length (requests p) + Suc n"
proof (induction n)
  case 0
  let ?p0 = "log_line Debug ''syncConfig called'' p"
  obtain q where q: "syncConfig gen (nets 0) p = Inr q" "timers q = timers p @ [60000]"
    using syncConfig_timer by blast
  obtain x where x: "syncConfig_try gen (nets 0) ?p0 = Inr x \<or>
      (\<exists>e. syncConfig_try gen (nets 0) ?p0 = Inl (e, x))"
    by (cases "syncConfig_try gen (nets 0) ?p0") auto
  then obtain e where "syncConfig_try gen (nets 0) ?p0 = Inr x \<or>
      syncConfig_try gen (nets 0) ?p0 = Inl (e, x)" by blast
  note f = syncConfig_try_frame(2) [OF this]
  from x q(1) have "requests q = requests x"
    by (auto simp: syncConfig_def)
  with f q show ?case by (simp add: bootstrapAsyncUpdates_def)
next
  case (Suc n)
  then obtain q where q: "run_loop gen nets n p = Inr q" "timers q \<noteq> []"
    "length (requests q) = length (requests p) + Suc n" by blast
  then obtain t ts where ts: "timers q = t # ts" by (cases "timers q") auto
  let ?q = "q\<lparr>timers := ts\<rparr>"
  let ?p0 = "log_line Debug ''syncConfig called'' ?q"
  obtain q' where q': "syncConfig gen (nets (Suc n)) ?q = Inr q'"
      "timers q' = timers ?q @ [60000]"
    using syncConfig_timer by blast
  obtain x where x: "syncConfig_try gen (nets (Suc n)) ?p0 = Inr x \<or>
      (\<exists>e. syncConfig_try gen (nets (Suc n)) ?p0 = Inl (e, x))"
    by (cases "syncConfig_try gen (nets (Suc n)) ?p0") auto
  then obtain e where "syncConfig_try gen (nets (Suc n)) ?p0 = Inr x \<or>
      syncConfig_try gen (nets (Suc n)) ?p0 = Inl (e, x)" by blast
  note f = syncConfig_try_frame(2) [OF this]
  from x q'(1) have "requests q' = requests x"
    by (auto simp: syncConfig_def)
  with f q q' ts show ?case by simp
qed

text \<open>
  C7. In the earlier revision \<open>syncConfig\<close> has no \<open>try\<close>/\<open>catch\<close>. With a network that does
  not answer, the tick rejects with the error of \<open>fetch\<close> before it reaches \<open>setTimeout\<close>: no
  timer is pending in the state it leaves. The loop does not go on: started on that network
  and given two more timer expirations, it has made its one read and has no timer pending.
\<close>

theorem earlier_loop_stops_on_failed_read:
  "syncConfig_earlier plain_uuid dead_network (NextDNSPlatform_new cfg0) =
     Inl (FetchError,
          send (profile_request (Some ''key'') (Some ''abc123''))
            (log_line Debug ''syncConfig called'' (NextDNSPlatform_new cfg0))) \<and>
   timers (send (profile_request (Some ''key'') (Some ''abc123''))
            (log_line Debug ''syncConfig called'' (NextDNSPlatform_new cfg0))) = [] \<and>
   run_loop_earlier plain_uuid (\<lambda>k. dead_network) (Suc (Suc 0)) (NextDNSPlatform_new cfg0) =
     Inr (send (profile_request (Some ''key'') (Some ''abc123''))
            (log_line Debug ''syncConfig called'' (NextDNSPlatform_new cfg0)))"
proof -
  have c: "config (NextDNSPlatform_new cfg0) = cfg0"
    by (simp add: NextDNSPlatform_new_def cfg0_def falsy_def Let_def log_line_def)
  have k: "apiKey cfg0 = Some ''key''" "profileId cfg0 = Some ''abc123''"
    by (simp_all add: cfg0_def)
  have t: "timers (NextDNSPlatform_new cfg0) = []"
    by (simp add: NextDNSPlatform_new_def Let_def log_line_def)
  have 1: "syncConfig_earlier plain_uuid dead_network (NextDNSPlatform_new cfg0) =
     Inl (FetchError,
          send (profile_request (Some ''key'') (Some ''abc123''))
            (log_line Debug ''syncConfig called'' (NextDNSPlatform_new cfg0)))"
    by (simp add: syncConfig_earlier_def Let_def c k dead_network_def)
  have 2: "timers (send (profile_request (Some ''key'') (Some ''abc123''))
            (log_line Debug ''syncConfig called'' (NextDNSPlatform_new cfg0))) = []"
    by (simp add: t)
  from 1 2 show ?thesis
    by (simp add: bootstrapAsyncUpdates_earlier_def)
qed

section \<open>Accessories stay under their own UUID\<close>

lemma list_all_update:
  "list_all P al \<Longrightarrow> P (k, v) \<Longrightarrow> list_all P (AList.update k v al)"
  by (induction al) auto

lemma keyed_by_UUID_cong:
  assumes "\<And>r. UUID (heap q r) = UUID (heap p r)" "next_ref q = next_ref p"
    "accessories q = accessories p" "BlockedDomainAccessories q = BlockedDomainAccessories p"
  shows "keyed_by_UUID q = keyed_by_UUID p"
  using assms by (simp add: keyed_by_UUID_def)

lemma keyed_by_UUID_new: "keyed_by_UUID (NextDNSPlatform_new cfg)"
  by (simp add: keyed_by_UUID_def NextDNSPlatform_new_def Let_def)

lemma keyed_by_UUID_syncEntry: "keyed_by_UUID p \<Longrightarrow> keyed_by_UUID (syncEntry gen p e)"
  unfolding keyed_by_UUID_def
proof (intro conjI)
  assume a: "list_all (\<lambda>(k, r). UUID (heap p r) = k \<and> r < next_ref p) (accessories p) \<and>
      list_all (\<lambda>(u, h). UUID (heap p (accessory h)) = u \<and> accessory h < next_ref p)
        (BlockedDomainAccessories p)"
  then show "list_all (\<lambda>(k, r). UUID (heap (syncEntry gen p e) r) = k \<and> r < next_ref (syncEntry gen p e))
     (accessories (syncEntry gen p e))" by simp
  show "list_all (\<lambda>(u, h). UUID (heap (syncEntry gen p e) (accessory h)) = u \<and>
            accessory h < next_ref (syncEntry gen p e)) (BlockedDomainAccessories (syncEntry gen p e))"
  proof (cases "map_of (BlockedDomainAccessories p) (getUUID gen (entry_id e))")
    case None
    with a show ?thesis by (simp add: syncEntry_registry)
  next
    case (Some h)
    then have "(getUUID gen (entry_id e), h) \<in> set (BlockedDomainAccessories p)"
      by (rule map_of_SomeD)
    with a have "UUID (heap p (accessory h)) = getUUID gen (entry_id e) \<and> accessory h < next_ref p"
      by (auto simp: list_all_iff)
    with a Some show ?thesis
      by (simp add: syncEntry_registry list_all_update)
  qed
qed

lemma keyed_by_UUID_foldl_syncEntry:
  "keyed_by_UUID p \<Longrightarrow> keyed_by_UUID (foldl (syncEntry gen) p es)"
  by (induction es arbitrary: p) (simp_all add: keyed_by_UUID_syncEntry)

lemma keyed_by_UUID_configureAccessory:
  assumes "keyed_by_UUID p"
  shows "keyed_by_UUID (configureAccessory p a)"
proof -
  from assms have
    1: "\<forall>(k, r) \<in> set (accessories p). UUID (heap p r) = k \<and> r < next_ref p" and
    2: "\<forall>(u, h) \<in> set (BlockedDomainAccessories p).
          UUID (heap p (accessory h)) = u \<and> accessory h < next_ref p"
    by (simp_all add: keyed_by_UUID_def list_all_iff)
  have "list_all (\<lambda>(k, r). UUID (((heap p)(next_ref p := a)) r) = k \<and> r < Suc (next_ref p))
          (AList.update (UUID a) (next_ref p) (accessories p))"
    using 1 by (intro list_all_update) (auto simp: list_all_iff)
  moreover have "list_all (\<lambda>(u, h). UUID (((heap p)(next_ref p := a)) (accessory h)) = u \<and>
          accessory h < Suc (next_ref p)) (BlockedDomainAccessories p)"
    using 2 by (auto simp: list_all_iff)
  ultimately show ?thesis
    by (simp add: keyed_by_UUID_def configureAccessory_def Let_def)
qed

lemma BlockedDomainAccessory_new_frame:
  assumes "BlockedDomainAccessory_new p r = (q, h)"
  shows "accessory h = r" "isOn h = (context_isOn (heap p r) = JBool True)"
    "next_ref q = next_ref p" "accessories q = accessories p"
    "BlockedDomainAccessories q = BlockedDomainAccessories p"
    "UUID (heap q r') = UUID (heap p r')" "config q = config p"
    "discoveredCacheUUIDs q = discoveredCacheUUIDs p"
    "r' \<noteq> r \<Longrightarrow> heap q r' = heap p r'"
    "map_option On (Switch (heap q r)) = Some (case Switch (heap p r) of None \<Rightarrow> False | Some s \<Rightarrow> On s)"
  using assms
  by (auto simp: BlockedDomainAccessory_new_def Let_def split: option.splits)


lemma discoverDevice_frame [simp]:
  "accessories (discoverDevice gen nb p d) = accessories p"
  "config (discoverDevice gen nb p d) = config p"
  "requests (discoverDevice gen nb p d) = requests p"
  "timers (discoverDevice gen nb p d) = timers p"
  by (simp_all add: discoverDevice_def BlockedDomainAccessory_new_def Let_def
      split: option.splits prod.splits)

lemma discoverDevice_registry:
  "BlockedDomainAccessories (discoverDevice gen nb p d) =
     AList.update (getUUID gen d)
       \<lparr>isOn = truthy (record_get nb d),
        accessory = (case map_of (accessories p) (getUUID gen d) of
                       Some r \<Rightarrow> r | None \<Rightarrow> next_ref p)\<rparr>
       (BlockedDomainAccessories p)"
  by (simp add: discoverDevice_def BlockedDomainAccessory_new_def Let_def
      split: option.splits prod.splits)

lemma discoverDevice_fresh:
  assumes "map_of (accessories p) (getUUID gen d) = None"
  shows "next_ref (discoverDevice gen nb p d) = Suc (next_ref p)"
    "UUID (heap (discoverDevice gen nb p d) (next_ref p)) = getUUID gen d"
    "map_option On (Switch (heap (discoverDevice gen nb p d) (next_ref p))) = Some False"
    "r \<noteq> next_ref p \<Longrightarrow> heap (discoverDevice gen nb p d) r = heap p r"
  using assms
  by (simp_all add: discoverDevice_def BlockedDomainAccessory_new_def Let_def blank_accessory_def)

lemma discoverDevice_restored:
  assumes "map_of (accessories p) (getUUID gen d) = Some r"
  shows "next_ref (discoverDevice gen nb p d) = next_ref p"
    "UUID (heap (discoverDevice gen nb p d) r') = UUID (heap p r')"
    "r' \<noteq> r \<Longrightarrow> heap (discoverDevice gen nb p d) r' = heap p r'"
  using assms
  by (simp_all add: discoverDevice_def BlockedDomainAccessory_new_def Let_def)

lemma keyed_by_UUID_discoverDevice:
  assumes "keyed_by_UUID p"
  shows "keyed_by_UUID (discoverDevice gen nb p d)"
proof -
  let ?q = "discoverDevice gen nb p d"
  from assms have
    1: "\<forall>(k, r) \<in> set (accessories p). UUID (heap p r) = k \<and> r < next_ref p" and
    2: "\<forall>(u, h) \<in> set (BlockedDomainAccessories p).
          UUID (heap p (accessory h)) = u \<and> accessory h < next_ref p"
    by (simp_all add: keyed_by_UUID_def list_all_iff)
  show ?thesis
  proof (cases "map_of (accessories p) (getUUID gen d)")
    case None
    note f = discoverDevice_fresh [OF None, where nb = nb]
    have a: "list_all (\<lambda>(k, r). UUID (heap ?q r) = k \<and> r < next_ref ?q) (accessories ?q)"
      using 1 f(1) f(4) by (fastforce simp: list_all_iff)
    have b: "list_all (\<lambda>(u, h). UUID (heap ?q (accessory h)) = u \<and> accessory h < next_ref ?q)
               (BlockedDomainAccessories p)"
      using 2 f(1) f(4) by (fastforce simp: list_all_iff)
    have "list_all (\<lambda>(u, h). UUID (heap ?q (accessory h)) = u \<and> accessory h < next_ref ?q)
            (BlockedDomainAccessories ?q)"
      unfolding discoverDevice_registry using b f(1,2) None
      by (intro list_all_update) simp_all
    with a show ?thesis by (simp add: keyed_by_UUID_def)
  next
    case (Some r)
    note f = discoverDevice_restored [OF Some, where nb = nb]
    from Some have "(getUUID gen d, r) \<in> set (accessories p)" by (rule map_of_SomeD)
    with 1 have r: "UUID (heap p r) = getUUID gen d" "r < next_ref p" by auto
    have a: "list_all (\<lambda>(k, r). UUID (heap ?q r) = k \<and> r < next_ref ?q) (accessories ?q)"
      using 1 f(1,2) by (auto simp: list_all_iff)
    have b: "list_all (\<lambda>(u, h). UUID (heap ?q (accessory h)) = u \<and> accessory h < next_ref ?q)
               (BlockedDomainAccessories p)"
      using 2 f(1,2) by (auto simp: list_all_iff)
    have "list_all (\<lambda>(u, h). UUID (heap ?q (accessory h)) = u \<and> accessory h < next_ref ?q)
            (BlockedDomainAccessories ?q)"
      unfolding discoverDevice_registry using b f(1,2) r Some
      by (intro list_all_update) simp_all
    with a show ?thesis by (simp add: keyed_by_UUID_def)
  qed
qed

lemma keyed_by_UUID_foldl_discoverDevice:
  "keyed_by_UUID p \<Longrightarrow> keyed_by_UUID (foldl (discoverDevice gen nb) p ds)"
  by (induction ds arbitrary: p) (simp_all add: keyed_by_UUID_discoverDevice)

lemma removeStale_frame [simp]:
  "heap (removeStale p x) = heap p"
  "next_ref (removeStale p x) = next_ref p"
  "accessories (removeStale p x) = accessories p"
  "BlockedDomainAccessories (removeStale p x) = BlockedDomainAccessories p"
  "config (removeStale p x) = config p"
  "requests (removeStale p x) = requests p"
  "timers (removeStale p x) = timers p"
  by (simp_all add: removeStale_def split: prod.splits)

lemma foldl_removeStale_frame [simp]:
  "heap (foldl removeStale p xs) = heap p"
  "next_ref (foldl removeStale p xs) = next_ref p"
  "accessories (foldl removeStale p xs) = accessories p"
  "BlockedDomainAccessories (foldl removeStale p xs) = BlockedDomainAccessories p"
  "config (foldl removeStale p xs) = config p"
  "requests (foldl removeStale p xs) = requests p"
  "timers (foldl removeStale p xs) = timers p"
  by (induction xs arbitrary: p) simp_all

lemma keyed_by_UUID_syncConfig_try:
  assumes "syncConfig_try gen net p = Inr q \<or> syncConfig_try gen net p = Inl (e, q)"
    and "keyed_by_UUID p"
  shows "keyed_by_UUID q"
proof -
  obtain p1 d where g:
    "getNextDNSProfileData net p (apiKey (config p)) (profileId (config p)) = Inr (p1, d)"
    using getNextDNSProfileData_resolves by blast
  note f = getNextDNSProfileData_frame [OF g]
  have k1: "keyed_by_UUID p1"
    using assms(2) f by (simp add: keyed_by_UUID_def)
  from assms(1) g consider "q = p1" | es where "q = foldl (syncEntry gen) p1 es"
    by (auto simp: syncConfig_try_def split: nullable.splits)
  then show ?thesis
    using k1 by cases (simp_all add: keyed_by_UUID_foldl_syncEntry)
qed

lemma keyed_by_UUID_syncConfig:
  assumes "syncConfig gen net p = Inr q" and "keyed_by_UUID p"
  shows "keyed_by_UUID q"
proof -
  let ?p0 = "log_line Debug ''syncConfig called'' p"
  have k0: "keyed_by_UUID ?p0" using assms(2) by (simp add: keyed_by_UUID_def)
  show ?thesis
  proof (cases "syncConfig_try gen net ?p0")
    case (Inl x)
    obtain e q' where x: "x = (e, q')" by (cases x)
    with Inl k0 have "keyed_by_UUID q'" using keyed_by_UUID_syncConfig_try by blast
    moreover from assms(1) Inl x
    have "q = (log_line Warn ''Failed to fetch profile:'' q')\<lparr>timers := timers q' @ [60000]\<rparr>"
      by (simp add: syncConfig_def)
    ultimately show ?thesis by (simp add: keyed_by_UUID_def)
  next
    case (Inr q')
    with k0 have "keyed_by_UUID q'" using keyed_by_UUID_syncConfig_try by blast
    moreover from assms(1) Inr have "q = q'\<lparr>timers := timers q' @ [60000]\<rparr>"
      by (simp add: syncConfig_def)
    ultimately show ?thesis by (simp add: keyed_by_UUID_def)
  qed
qed

lemma keyed_by_UUID_discoverDevices:
  assumes "discoverDevices gen net p = Inr q" and "keyed_by_UUID p"
  shows "keyed_by_UUID q"
proof -
  obtain p1 d where g:
    "getNextDNSProfileData net p (apiKey (config p)) (profileId (config p)) = Inr (p1, d)"
    using getNextDNSProfileData_resolves by blast
  note f = getNextDNSProfileData_frame [OF g]
  have k1: "keyed_by_UUID (log_line Debug ''nextDNSBlockedDomains'' p1)"
    using assms(2) f by (simp add: keyed_by_UUID_def)
  from assms(1) g obtain nb ds where
    q: "syncConfig gen net
          (foldl removeStale (foldl (discoverDevice gen nb) (log_line Debug ''nextDNSBlockedDomains'' p1) ds)
             (accessories (foldl (discoverDevice gen nb) (log_line Debug ''nextDNSBlockedDomains'' p1) ds))) = Inr q"
    by (auto simp: discoverDevices_def Let_def bootstrapAsyncUpdates_def)
  have "keyed_by_UUID (foldl (discoverDevice gen nb) (log_line Debug ''nextDNSBlockedDomains'' p1) ds)"
    using k1 by (rule keyed_by_UUID_foldl_discoverDevice)
  then have "keyed_by_UUID
          (foldl removeStale (foldl (discoverDevice gen nb) (log_line Debug ''nextDNSBlockedDomains'' p1) ds)
             (accessories (foldl (discoverDevice gen nb) (log_line Debug ''nextDNSBlockedDomains'' p1) ds)))"
    by (simp add: keyed_by_UUID_def)
  with q show ?thesis by (rule keyed_by_UUID_syncConfig)
qed

lemma keyed_by_UUID_run_call:
  assumes "run_call net p c = Inr q" and "keyed_by_UUID p"
  shows "keyed_by_UUID q"
proof -
  have "next_ref q = next_ref p \<and> accessories q = accessories p \<and> heap q = heap p \<and>
        BlockedDomainAccessories q = BlockedDomainAccessories p"
  proof (cases c)
    case (BlockDomain d)
    with assms(1) blockDomain_resume_effect [of net p d] show ?thesis by auto
  next
    case (UnblockDomain d)
    with assms(1) unblockDomain_resume_effect [of net p d] show ?thesis by auto
  qed
  with assms(2) show ?thesis by (simp add: keyed_by_UUID_def)
qed

lemma keyed_by_UUID_setOn:
  assumes "setOn p key v = Inr q" and "keyed_by_UUID p"
  shows "keyed_by_UUID q"
proof (cases "map_of (BlockedDomainAccessories p) key")
  case None
  with assms(1) show ?thesis by (simp add: setOn_def)
next
  case (Some this)
  then have "(key, this) \<in> set (BlockedDomainAccessories p)" by (rule map_of_SomeD)
  with assms(2) have t: "UUID (heap p (accessory this)) = key" "accessory this < next_ref p"
    by (auto simp: keyed_by_UUID_def list_all_iff)
  from assms(1) Some have q: "heap q = heap p" "next_ref q = next_ref p"
    "accessories q = accessories p"
    "BlockedDomainAccessories q =
       AList.update key (this\<lparr>isOn := v\<rparr>) (BlockedDomainAccessories p)"
    by (auto simp: setOn_def Let_def blockDomain_begin_def unblockDomain_begin_def
        split: if_splits)
  have "list_all (\<lambda>(u, h). UUID (heap p (accessory h)) = u \<and> accessory h < next_ref p)
          (AList.update key (this\<lparr>isOn := v\<rparr>) (BlockedDomainAccessories p))"
    using assms(2) t by (intro list_all_update) (simp_all add: keyed_by_UUID_def)
  with assms(2) q show ?thesis by (simp add: keyed_by_UUID_def)
qed

lemma keyed_by_UUID_didFinishLaunching:
  assumes "didFinishLaunching gen net p = Inr q" and "keyed_by_UUID p"
  shows "keyed_by_UUID q"
proof (cases "launch_listener p")
  case True
  have "keyed_by_UUID (log_line Debug ''Executed didFinishLaunching callback'' p)"
    using assms(2) by (simp add: keyed_by_UUID_def)
  with assms(1) True show ?thesis
    by (auto simp: didFinishLaunching_def intro: keyed_by_UUID_discoverDevices)
next
  case False
  with assms show ?thesis by (simp add: didFinishLaunching_def)
qed

section \<open>A tick and the domains the remote list does not mention\<close>

lemma foldl_syncEntry_untouched:
  assumes "\<forall>k. map_of (accessories p) k = Some (accessory h) \<longrightarrow> k = u"
    and "\<forall>e \<in> set es. getUUID gen (entry_id e) \<noteq> u"
    and "u \<noteq> ''adf''"
    and "map_of (BlockedDomainAccessories p) u = Some h"
  shows "map_of (BlockedDomainAccessories (foldl (syncEntry gen) p es)) u = Some h \<and>
         heap (foldl (syncEntry gen) p es) (accessory h) = heap p (accessory h)"
  using assms
proof (induction es arbitrary: p)
  case Nil
  then show ?case by simp
next
  case (Cons e es)
  let ?q = "syncEntry gen p e"
  from Cons.prems have ne: "getUUID gen (entry_id e) \<noteq> u" by simp
  have h1: "heap ?q (accessory h) = heap p (accessory h)"
    using Cons.prems(1,3) ne by (intro syncEntry_heap_other) auto
  have h2: "map_of (BlockedDomainAccessories ?q) u = Some h"
    using Cons.prems(4) ne by (simp add: syncEntry_registry update_conv' split: option.splits)
  have "map_of (BlockedDomainAccessories (foldl (syncEntry gen) ?q es)) u = Some h \<and>
        heap (foldl (syncEntry gen) ?q es) (accessory h) = heap ?q (accessory h)"
    using Cons.prems h2 by (intro Cons.IH) simp_all
  with h1 show ?case by simp
qed

lemma getUUID_inj: "inj gen \<Longrightarrow> getUUID gen a = getUUID gen b \<Longrightarrow> a = b"
  by (auto simp: getUUID_def dest: injD)

text \<open>
  C9. Take a tick whose read succeeds, and a domain that has a handler in the registry but
  no entry in the fetched denylist. After the tick the registry holds the same handler for
  it (the same cached boolean), its accessory object is the same (the same On
  characteristic), and the only request the tick sent is the GET of the profile: nothing
  was created remotely. The host's identifier generator is taken to be injective, and the
  domain's identifier is not the literal \<open>adf\<close> that \<open>syncConfig\<close> looks up.
\<close>

theorem absent_domain_untouched:
  assumes "keyed_by_UUID p" and "inj gen" and "getUUID gen domain \<noteq> ''adf''"
    and "net (profile_request (apiKey (config p)) (profileId (config p))) =
           Response True st (Parsed (Value \<lparr>denylist = Value es\<rparr>))"
    and "domain \<notin> entry_id ` set es"
    and "map_of (BlockedDomainAccessories p) (getUUID gen domain) = Some h"
  shows "\<exists>p'. syncConfig gen net p = Inr p' \<and>
           map_of (BlockedDomainAccessories p') (getUUID gen domain) = Some h \<and>
           heap p' (accessory h) = heap p (accessory h) \<and>
           requests p' = requests p @ [profile_request (apiKey (config p)) (profileId (config p))] \<and>
           req_method (profile_request (apiKey (config p)) (profileId (config p))) = GET"
proof -
  let ?u = "getUUID gen domain"
  let ?x = "send (profile_request (apiKey (config p)) (profileId (config p)))
              (log_line Debug ''syncConfig called'' p)"
  from assms(6) have "(?u, h) \<in> set (BlockedDomainAccessories p)" by (rule map_of_SomeD)
  with assms(1) have uh: "UUID (heap p (accessory h)) = ?u"
    by (auto simp: keyed_by_UUID_def list_all_iff)
  have a: "\<forall>k. map_of (accessories ?x) k = Some (accessory h) \<longrightarrow> k = ?u"
  proof (intro allI impI)
    fix k assume "map_of (accessories ?x) k = Some (accessory h)"
    then have "(k, accessory h) \<in> set (accessories p)" by (auto dest: map_of_SomeD)
    with assms(1) have "UUID (heap p (accessory h)) = k"
      by (auto simp: keyed_by_UUID_def list_all_iff)
    with uh show "k = ?u" by simp
  qed
  have b: "\<forall>e \<in> set es. getUUID gen (entry_id e) \<noteq> ?u"
    using assms(2,5) by (auto dest: getUUID_inj)
  have c: "?u \<noteq> ''adf''" using assms(3) .
  have d: "map_of (BlockedDomainAccessories ?x) ?u = Some h" using assms(6) by simp
  have "syncConfig gen net p = Inr ((foldl (syncEntry gen) ?x es)\<lparr>timers := timers p @ [60000]\<rparr>)"
    using assms(4) by (rule syncConfig_ok)
  with foldl_syncEntry_untouched [OF a b c d]
  show ?thesis
    by (simp add: profile_request_def)
qed


lemma syncEntry_restored_On:
  assumes "map_of (accessories p) (getUUID gen (entry_id e)) = Some r"
    and "Switch (heap p r) = Some s" and "map_of (accessories p) ''adf'' = None"
  shows "map_option On (Switch (heap (syncEntry gen p e) r)) = Some (active e)"
  using assms
  by (auto simp: syncEntry_def getService_Switch_def updateCharacteristic_On_def Let_def
      split: option.splits)

lemma discoverDevice_restored_On:
  assumes "map_of (accessories p) (getUUID gen d) = Some r"
  shows "map_option On (Switch (heap (discoverDevice gen nb p d) r)) =
           Some (case Switch (heap p r) of None \<Rightarrow> False | Some s \<Rightarrow> On s)"
  using assms
  by (simp add: discoverDevice_def BlockedDomainAccessory_new_def Let_def split: option.splits)

lemma discovery_one_domain:
  assumes "launch_listener p" and "blockedDomains (config p) = Some [d]"
    and "net (profile_request (apiKey (config p)) (profileId (config p))) =
           Response True st (Parsed (Value \<lparr>denylist = Value es\<rparr>))"
  shows "\<exists>D. didFinishLaunching gen net p = syncConfig gen net D \<and>
           accessories D = accessories p \<and> config D = config p \<and>
           BlockedDomainAccessories D =
             AList.update (getUUID gen d)
               \<lparr>isOn = truthy (record_get
                         (foldl (\<lambda>acc e. record_set acc (entry_id e) (active e)) [] es) d),
                accessory = (case map_of (accessories p) (getUUID gen d) of
                               Some r \<Rightarrow> r | None \<Rightarrow> next_ref p)\<rparr>
               (BlockedDomainAccessories p) \<and>
           (map_of (accessories p) (getUUID gen d) = None \<longrightarrow>
              map_option On (Switch (heap D (next_ref p))) = Some False) \<and>
           (keyed_by_UUID p \<longrightarrow> keyed_by_UUID D) \<and>
           (\<forall>r. map_of (accessories p) (getUUID gen d) = Some r \<longrightarrow>
              map_option On (Switch (heap D r)) =
                Some (case Switch (heap p r) of None \<Rightarrow> False | Some s \<Rightarrow> On s))"
proof -
  let ?nb = "foldl (\<lambda>acc e. record_set acc (entry_id e) (active e)) [] es"
  let ?x = "log_line Debug ''Executed didFinishLaunching callback'' p"
  let ?y = "log_line Debug ''nextDNSBlockedDomains''
              (send (profile_request (apiKey (config p)) (profileId (config p))) ?x)"
  let ?d = "discoverDevice gen ?nb ?y d"
  let ?D = "foldl removeStale ?d (accessories ?d)"
  have "getNextDNSProfileData net ?x (apiKey (config ?x)) (profileId (config ?x)) =
          Inr (send (profile_request (apiKey (config p)) (profileId (config p))) ?x,
               Value \<lparr>denylist = Value es\<rparr>)"
    using assms(3) by (simp add: getNextDNSProfileData_ok)
  then have 1: "didFinishLaunching gen net p = syncConfig gen net ?D"
    using assms(1,2)
    by (simp add: didFinishLaunching_def discoverDevices_def bootstrapAsyncUpdates_def Let_def)
  have 2: "BlockedDomainAccessories ?D =
             AList.update (getUUID gen d)
               \<lparr>isOn = truthy (record_get ?nb d),
                accessory = (case map_of (accessories p) (getUUID gen d) of
                               Some r \<Rightarrow> r | None \<Rightarrow> next_ref p)\<rparr>
               (BlockedDomainAccessories p)"
    by (simp add: discoverDevice_registry cong: option.case_cong)
  have 3: "map_of (accessories p) (getUUID gen d) = None \<longrightarrow>
              map_option On (Switch (heap ?D (next_ref p))) = Some False"
    using discoverDevice_fresh(3) [of ?y gen d ?nb] by simp
  have 4: "keyed_by_UUID p \<longrightarrow> keyed_by_UUID ?D"
  proof
    assume "keyed_by_UUID p"
    then have "keyed_by_UUID ?y" by (simp add: keyed_by_UUID_def)
    then have "keyed_by_UUID ?d" by (rule keyed_by_UUID_discoverDevice)
    then show "keyed_by_UUID ?D" by (simp add: keyed_by_UUID_def)
  qed
  have 5: "\<forall>r. map_of (accessories p) (getUUID gen d) = Some r \<longrightarrow>
              map_option On (Switch (heap ?D r)) =
                Some (case Switch (heap p r) of None \<Rightarrow> False | Some s \<Rightarrow> On s)"
    using discoverDevice_restored_On [of ?y gen d _ ?nb] by simp
  from 1 2 3 4 5 show ?thesis by (intro exI [of _ ?D]) simp
qed

lemma tick_one_entry:
  assumes "net (profile_request (apiKey (config p)) (profileId (config p))) =
             Response True st (Parsed (Value \<lparr>denylist = Value [e]\<rparr>))"
  shows "\<exists>q. syncConfig gen net p = Inr q \<and>
           accessories q = accessories p \<and> config q = config p \<and>
           BlockedDomainAccessories q =
             (case map_of (BlockedDomainAccessories p) (getUUID gen (entry_id e)) of
                None \<Rightarrow> BlockedDomainAccessories p
              | Some h \<Rightarrow> AList.update (getUUID gen (entry_id e)) (h\<lparr>isOn := active e\<rparr>)
                           (BlockedDomainAccessories p)) \<and>
           (accessories p = [] \<longrightarrow> heap q = heap p) \<and>
           (\<forall>r s. map_of (accessories p) (getUUID gen (entry_id e)) = Some r \<and>
                  Switch (heap p r) = Some s \<and> map_of (accessories p) ''adf'' = None \<longrightarrow>
              map_option On (Switch (heap q r)) = Some (active e))"
proof -
  let ?x = "send (profile_request (apiKey (config p)) (profileId (config p)))
              (log_line Debug ''syncConfig called'' p)"
  have 1: "syncConfig gen net p = Inr ((foldl (syncEntry gen) ?x [e])\<lparr>timers := timers p @ [60000]\<rparr>)"
    using assms by (rule syncConfig_ok)
  have 2: "accessories p = [] \<longrightarrow> heap (syncEntry gen ?x e) = heap p"
  proof
    assume a: "accessories p = []"
    have "heap (syncEntry gen ?x e) r = heap ?x r" for r
      using a by (intro syncEntry_heap_other) simp_all
    then show "heap (syncEntry gen ?x e) = heap p" by (simp add: fun_eq_iff)
  qed
  have 3: "\<forall>r s. map_of (accessories p) (getUUID gen (entry_id e)) = Some r \<and>
                  Switch (heap p r) = Some s \<and> map_of (accessories p) ''adf'' = None \<longrightarrow>
              map_option On (Switch (heap (syncEntry gen ?x e) r)) = Some (active e)"
    by (intro allI impI, rule syncEntry_restored_On) simp_all
  from 1 2 3 show ?thesis by (simp add: syncEntry_registry cong: option.case_cong)
qed

section \<open>Discovery and first ticks on concrete inputs\<close>

lemma new_cfg_fields:
  assumes "\<not> falsy (apiKey cfg)" "\<not> falsy (profileId cfg)"
  shows "launch_listener (NextDNSPlatform_new cfg)" "config (NextDNSPlatform_new cfg) = cfg"
    "accessories (NextDNSPlatform_new cfg) = []"
    "BlockedDomainAccessories (NextDNSPlatform_new cfg) = []"
    "next_ref (NextDNSPlatform_new cfg) = 0"
  using assms by (simp_all add: NextDNSPlatform_new_def Let_def)

lemma remote_answer: "remote es r = Response True ''OK'' (Parsed (Value \<lparr>denylist = Value es\<rparr>))"
  by (simp add: remote_def)

text \<open>
  C1. First launch: the host has no cached accessory, the configuration lists
  \<open>reddit.com\<close>, and the remote entry for it is inactive, so discovery builds a new
  accessory with its switch off. The entry then becomes active and a tick reads it. After
  that tick the handler's cached boolean is true, but the On characteristic of its accessory
  is still false: \<open>syncConfig\<close> looks the accessory up in the map of restored accessories,
  where an accessory created by this run of \<open>discoverDevices\<close> never is.
\<close>

theorem fresh_switch_characteristic_not_updated:
  "\<exists>p1 h1 p2 h2 s.
     didFinishLaunching plain_uuid (remote [\<lparr>entry_id = ''reddit.com'', active = False\<rparr>])
       (NextDNSPlatform_new cfg0) = Inr p1 \<and>
     map_of (BlockedDomainAccessories p1) (getUUID plain_uuid ''reddit.com'') = Some h1 \<and>
     getOn h1 = Inr False \<and>
     syncConfig plain_uuid (remote [\<lparr>entry_id = ''reddit.com'', active = True\<rparr>]) p1 = Inr p2 \<and>
     map_of (BlockedDomainAccessories p2) (getUUID plain_uuid ''reddit.com'') = Some h2 \<and>
     getOn h2 = Inr True \<and>
     Switch (heap p2 (accessory h2)) = Some s \<and> On s = False"
proof -
  let ?off = "\<lparr>entry_id = ''reddit.com'', active = False\<rparr>"
  let ?on = "\<lparr>entry_id = ''reddit.com'', active = True\<rparr>"
  let ?u = "getUUID plain_uuid ''reddit.com''"
  let ?p0 = "NextDNSPlatform_new cfg0"
  have c: "\<not> falsy (apiKey cfg0)" "\<not> falsy (profileId cfg0)"
    by (simp_all add: cfg0_def falsy_def)
  note n = new_cfg_fields [OF c]
  have b: "blockedDomains (config ?p0) = Some [''reddit.com'']"
    unfolding n(2) by (simp add: cfg0_def)
  from discovery_one_domain
    [where gen = plain_uuid and net = "remote [?off]" and es = "[?off]", OF n(1) b remote_answer]
  obtain D where D: "didFinishLaunching plain_uuid (remote [?off]) ?p0 =
        syncConfig plain_uuid (remote [?off]) D"
      "accessories D = accessories ?p0" "config D = config ?p0"
      "BlockedDomainAccessories D =
         AList.update ?u
           \<lparr>isOn = truthy (record_get
                     (foldl (\<lambda>acc e. record_set acc (entry_id e) (active e)) [] [?off])
                     ''reddit.com''),
            accessory = (case map_of (accessories ?p0) ?u of Some r \<Rightarrow> r | None \<Rightarrow> next_ref ?p0)\<rparr>
           (BlockedDomainAccessories ?p0)"
      "map_of (accessories ?p0) ?u = None \<longrightarrow>
         map_option On (Switch (heap D (next_ref ?p0))) = Some False"
    by (elim exE conjE) (rule that, assumption+)
  have D4: "BlockedDomainAccessories D = [(?u, \<lparr>isOn = False, accessory = 0\<rparr>)]"
    using D(4) by (simp add: n record_get_def record_set_def)
  from D(5) obtain s where s: "Switch (heap D 0) = Some s" "On s = False"
    by (auto simp: n)
  from tick_one_entry
    [where gen = plain_uuid and net = "remote [?off]" and e = ?off and p = D, OF remote_answer]
  obtain p1 where p1: "syncConfig plain_uuid (remote [?off]) D = Inr p1"
      "accessories p1 = accessories D"
      "BlockedDomainAccessories p1 =
         (case map_of (BlockedDomainAccessories D) (getUUID plain_uuid (entry_id ?off)) of
            None \<Rightarrow> BlockedDomainAccessories D
          | Some h \<Rightarrow> AList.update (getUUID plain_uuid (entry_id ?off)) (h\<lparr>isOn := active ?off\<rparr>)
                       (BlockedDomainAccessories D))"
      "accessories D = [] \<longrightarrow> heap p1 = heap D"
    by (elim exE conjE) (rule that, assumption+)
  have p13: "BlockedDomainAccessories p1 = [(?u, \<lparr>isOn = False, accessory = 0\<rparr>)]"
    using p1(3) by (simp add: D4)
  have p14: "heap p1 = heap D" "accessories p1 = []"
    using p1(2,4) D(2) by (simp_all add: n)
  from tick_one_entry
    [where gen = plain_uuid and net = "remote [?on]" and e = ?on and p = p1, OF remote_answer]
  obtain p2 where p2: "syncConfig plain_uuid (remote [?on]) p1 = Inr p2"
      "BlockedDomainAccessories p2 =
         (case map_of (BlockedDomainAccessories p1) (getUUID plain_uuid (entry_id ?on)) of
            None \<Rightarrow> BlockedDomainAccessories p1
          | Some h \<Rightarrow> AList.update (getUUID plain_uuid (entry_id ?on)) (h\<lparr>isOn := active ?on\<rparr>)
                       (BlockedDomainAccessories p1))"
      "accessories p1 = [] \<longrightarrow> heap p2 = heap p1"
    by (elim exE conjE) (rule that, assumption+)
  have p22: "BlockedDomainAccessories p2 = [(?u, \<lparr>isOn = True, accessory = 0\<rparr>)]"
    using p2(2) by (simp add: p13)
  have p23: "heap p2 = heap D"
    using p2(3) p14 by simp
  show ?thesis
    using D(1) p1(1) p13 p2(1) p22 p23 s by (simp add: getOn_def)
qed

text \<open>
  A name that \<open>Object.prototype\<close> does not have and that has no entry is seeded off, and
  the handler's constructor takes nothing but the boolean \<open>true\<close> in \<open>context.isOn\<close> for on.
\<close>

lemma record_get_foldl_absent:
  "d \<notin> entry_id ` set es \<Longrightarrow>
   map_of (foldl (\<lambda>acc e. record_set acc (entry_id e) (active e)) acc es) d = map_of acc d"
  by (induction es arbitrary: acc) (auto simp: record_set_def update_conv')

lemma seeded_off_unless_inherited:
  assumes "d \<notin> entry_id ` set es" and "d \<notin> set Object_prototype"
  shows "\<not> truthy (record_get (foldl (\<lambda>acc e. record_set acc (entry_id e) (active e)) [] es) d)"
  using assms by (simp add: record_get_def record_get_foldl_absent)

lemma discoverDevice_seeds_off:
  assumes "d \<notin> entry_id ` set es" and "d \<notin> set Object_prototype"
    and "map_of (BlockedDomainAccessories
           (discoverDevice gen (foldl (\<lambda>acc e. record_set acc (entry_id e) (active e)) [] es) p d))
           (getUUID gen d) = Some h"
  shows "\<not> isOn h"
  using assms(3) seeded_off_unless_inherited [OF assms(1,2)]
  by (auto simp: discoverDevice_registry update_conv')

lemma constructor_seeds_strictly:
  assumes "BlockedDomainAccessory_new p r = (q, h)"
  shows "isOn h = (context_isOn (heap p r) = JBool True)"
  using assms by (rule BlockedDomainAccessory_new_frame(2))

text \<open>
  C10. The configuration lists the name \<open>constructor\<close> and the fetched denylist is empty,
  so the name has no entry. Discovery seeds its switch with
  \<open>!!nextDNSBlockedDomains['constructor']\<close>, which finds the member every object inherits
  from \<open>Object.prototype\<close>: the handler's cached boolean is true, not false.
\<close>

theorem inherited_name_seeded_on:
  "\<exists>p1 h.
     didFinishLaunching plain_uuid (remote [])
       (NextDNSPlatform_new (cfg0\<lparr>blockedDomains := Some [''constructor'']\<rparr>)) = Inr p1 \<and>
     map_of (BlockedDomainAccessories p1) (getUUID plain_uuid ''constructor'') = Some h \<and>
     getOn h = Inr True"
proof -
  let ?cfg = "cfg0\<lparr>blockedDomains := Some [''constructor'']\<rparr>"
  let ?u = "getUUID plain_uuid ''constructor''"
  let ?p0 = "NextDNSPlatform_new ?cfg"
  have c: "\<not> falsy (apiKey ?cfg)" "\<not> falsy (profileId ?cfg)"
    by (simp_all add: cfg0_def falsy_def)
  note n = new_cfg_fields [OF c]
  have b: "blockedDomains (config ?p0) = Some [''constructor'']"
    unfolding n(2) by simp
  from discovery_one_domain
    [where gen = plain_uuid and net = "remote []" and es = "[]", OF n(1) b remote_answer]
  obtain D where D: "didFinishLaunching plain_uuid (remote []) ?p0 =
        syncConfig plain_uuid (remote []) D"
      "BlockedDomainAccessories D =
         AList.update ?u
           \<lparr>isOn = truthy (record_get
                     (foldl (\<lambda>acc e. record_set acc (entry_id e) (active e)) []
                        ([] :: DenylistEntry list))
                     ''constructor''),
            accessory = (case map_of (accessories ?p0) ?u of Some r \<Rightarrow> r | None \<Rightarrow> next_ref ?p0)\<rparr>
           (BlockedDomainAccessories ?p0)"
    by (elim exE conjE) (rule that, assumption+)
  have D2: "BlockedDomainAccessories D = [(?u, \<lparr>isOn = True, accessory = 0\<rparr>)]"
    using D(2) by (simp add: n record_get_def Object_prototype_def)
  have "syncConfig plain_uuid (remote []) D =
          Inr ((foldl (syncEntry plain_uuid)
                 (send (profile_request (apiKey (config D)) (profileId (config D)))
                    (log_line Debug ''syncConfig called'' D)) [])
               \<lparr>timers := timers D @ [60000]\<rparr>)"
    by (rule syncConfig_ok) (rule remote_answer)
  with D(1) D2 show ?thesis by (simp add: getOn_def)
qed

section \<open>The same domain on an accessory restored from the cache\<close>

lemma restored_platform_fields:
  "launch_listener (configureAccessory (NextDNSPlatform_new cfg0) cached_reddit)"
  "config (configureAccessory (NextDNSPlatform_new cfg0) cached_reddit) = cfg0"
  "accessories (configureAccessory (NextDNSPlatform_new cfg0) cached_reddit) =
     [(getUUID plain_uuid ''reddit.com'', 0)]"
  "BlockedDomainAccessories (configureAccessory (NextDNSPlatform_new cfg0) cached_reddit) = []"
  "Switch (heap (configureAccessory (NextDNSPlatform_new cfg0) cached_reddit) 0) =
     Some \<lparr>Name = ''Reddit Block'', On = False\<rparr>"
  "blockedDomains (config (configureAccessory (NextDNSPlatform_new cfg0) cached_reddit)) =
     Some [''reddit.com'']"
proof -
  have c: "\<not> falsy (apiKey cfg0)" "\<not> falsy (profileId cfg0)"
    by (simp_all add: cfg0_def falsy_def)
  note n = new_cfg_fields [OF c]
  show "launch_listener (configureAccessory (NextDNSPlatform_new cfg0) cached_reddit)"
    using n(1) by (simp add: configureAccessory_def Let_def log_line_def)
  show 2: "config (configureAccessory (NextDNSPlatform_new cfg0) cached_reddit) = cfg0"
    using n(2) by (simp add: configureAccessory_def Let_def)
  show "accessories (configureAccessory (NextDNSPlatform_new cfg0) cached_reddit) =
     [(getUUID plain_uuid ''reddit.com'', 0)]"
    using n(3,5)
    by (simp add: configureAccessory_def Let_def cached_reddit_def getUUID_def plain_uuid_def)
  show "BlockedDomainAccessories (configureAccessory (NextDNSPlatform_new cfg0) cached_reddit) = []"
    using n(4) by (simp add: configureAccessory_def Let_def)
  show "Switch (heap (configureAccessory (NextDNSPlatform_new cfg0) cached_reddit) 0) =
     Some \<lparr>Name = ''Reddit Block'', On = False\<rparr>"
    using n(5) by (simp add: configureAccessory_def Let_def cached_reddit_def)
  show "blockedDomains (config (configureAccessory (NextDNSPlatform_new cfg0) cached_reddit)) =
     Some [''reddit.com'']"
    unfolding 2 by (simp add: cfg0_def)
qed

lemma restored_discovery:
  "\<exists>p1. didFinishLaunching plain_uuid (remote [\<lparr>entry_id = ''reddit.com'', active = False\<rparr>])
          (configureAccessory (NextDNSPlatform_new cfg0) cached_reddit) = Inr p1 \<and>
        keyed_by_UUID p1 \<and>
        accessories p1 = [(getUUID plain_uuid ''reddit.com'', 0)] \<and>
        BlockedDomainAccessories p1 =
          [(getUUID plain_uuid ''reddit.com'', \<lparr>isOn = False, accessory = 0\<rparr>)] \<and>
        map_option On (Switch (heap p1 0)) = Some False"
proof -
  let ?off = "\<lparr>entry_id = ''reddit.com'', active = False\<rparr>"
  let ?u = "getUUID plain_uuid ''reddit.com''"
  let ?p0 = "configureAccessory (NextDNSPlatform_new cfg0) cached_reddit"
  note r = restored_platform_fields
  have k0: "keyed_by_UUID ?p0"
    by (intro keyed_by_UUID_configureAccessory keyed_by_UUID_new)
  from discovery_one_domain
    [where gen = plain_uuid and net = "remote [?off]" and es = "[?off]", OF r(1) r(6) remote_answer]
  obtain D where D: "didFinishLaunching plain_uuid (remote [?off]) ?p0 =
        syncConfig plain_uuid (remote [?off]) D"
      "accessories D = accessories ?p0"
      "BlockedDomainAccessories D =
         AList.update ?u
           \<lparr>isOn = truthy (record_get
                     (foldl (\<lambda>acc e. record_set acc (entry_id e) (active e)) [] [?off])
                     ''reddit.com''),
            accessory = (case map_of (accessories ?p0) ?u of Some r \<Rightarrow> r | None \<Rightarrow> next_ref ?p0)\<rparr>
           (BlockedDomainAccessories ?p0)"
      "keyed_by_UUID ?p0 \<longrightarrow> keyed_by_UUID D"
      "\<forall>r. map_of (accessories ?p0) ?u = Some r \<longrightarrow>
              map_option On (Switch (heap D r)) =
                Some (case Switch (heap ?p0 r) of None \<Rightarrow> False | Some s \<Rightarrow> On s)"
    by (elim exE conjE) (rule that, assumption+)
  have D2: "accessories D = [(?u, 0)]" using D(2) by (simp add: r)
  have D3: "BlockedDomainAccessories D = [(?u, \<lparr>isOn = False, accessory = 0\<rparr>)]"
    using D(3) by (simp add: r record_get_def record_set_def)
  have D4: "keyed_by_UUID D" using D(4) k0 by simp
  have "map_option On (Switch (heap D 0)) = Some False"
    using D(5) by (simp add: r)
  then obtain s where s: "Switch (heap D 0) = Some s" by auto
  have adf: "?u \<noteq> ''adf''" by (simp add: getUUID_def plain_uuid_def)
  from tick_one_entry
    [where gen = plain_uuid and net = "remote [?off]" and e = ?off and p = D, OF remote_answer]
  obtain p1 where p1: "syncConfig plain_uuid (remote [?off]) D = Inr p1"
      "accessories p1 = accessories D"
      "BlockedDomainAccessories p1 =
         (case map_of (BlockedDomainAccessories D) (getUUID plain_uuid (entry_id ?off)) of
            None \<Rightarrow> BlockedDomainAccessories D
          | Some h \<Rightarrow> AList.update (getUUID plain_uuid (entry_id ?off)) (h\<lparr>isOn := active ?off\<rparr>)
                       (BlockedDomainAccessories D))"
      "\<forall>r s. map_of (accessories D) (getUUID plain_uuid (entry_id ?off)) = Some r \<and>
                  Switch (heap D r) = Some s \<and> map_of (accessories D) ''adf'' = None \<longrightarrow>
              map_option On (Switch (heap p1 r)) = Some (active ?off)"
    by (elim exE conjE) (rule that, assumption+)
  have k1: "keyed_by_UUID p1" using p1(1) D4 by (rule keyed_by_UUID_syncConfig)
  have p13: "BlockedDomainAccessories p1 = [(?u, \<lparr>isOn = False, accessory = 0\<rparr>)]"
    using p1(3) by (simp add: D3)
  have p14: "map_option On (Switch (heap p1 0)) = Some False"
    using p1(4) s adf by (simp add: D2)
  show ?thesis
    using D(1) p1(1,2) k1 p13 p14 D2 by simp
qed

text \<open>
  The same two reads after a restart, when the host has restored the accessory from its
  cache: now the map of restored accessories has it, and the tick updates both the
  characteristic and the cached boolean.
\<close>

lemma restored_switch_characteristic_updated:
  "\<exists>p1 h1 p2 h2 s.
     didFinishLaunching plain_uuid (remote [\<lparr>entry_id = ''reddit.com'', active = False\<rparr>])
       (configureAccessory (NextDNSPlatform_new cfg0) cached_reddit) = Inr p1 \<and>
     map_of (BlockedDomainAccessories p1) (getUUID plain_uuid ''reddit.com'') = Some h1 \<and>
     getOn h1 = Inr False \<and>
     syncConfig plain_uuid (remote [\<lparr>entry_id = ''reddit.com'', active = True\<rparr>]) p1 = Inr p2 \<and>
     map_of (BlockedDomainAccessories p2) (getUUID plain_uuid ''reddit.com'') = Some h2 \<and>
     getOn h2 = Inr True \<and>
     Switch (heap p2 (accessory h2)) = Some s \<and> On s = True"
proof -
  let ?on = "\<lparr>entry_id = ''reddit.com'', active = True\<rparr>"
  let ?u = "getUUID plain_uuid ''reddit.com''"
  from restored_discovery obtain p1 where p1:
      "didFinishLaunching plain_uuid (remote [\<lparr>entry_id = ''reddit.com'', active = False\<rparr>])
          (configureAccessory (NextDNSPlatform_new cfg0) cached_reddit) = Inr p1"
      "accessories p1 = [(?u, 0)]"
      "BlockedDomainAccessories p1 = [(?u, \<lparr>isOn = False, accessory = 0\<rparr>)]"
      "map_option On (Switch (heap p1 0)) = Some False"
    by (elim exE conjE) (rule that, assumption+)
  from p1(4) obtain s where s: "Switch (heap p1 0) = Some s" by auto
  have adf: "?u \<noteq> ''adf''" by (simp add: getUUID_def plain_uuid_def)
  from tick_one_entry
    [where gen = plain_uuid and net = "remote [?on]" and e = ?on and p = p1, OF remote_answer]
  obtain p2 where p2: "syncConfig plain_uuid (remote [?on]) p1 = Inr p2"
      "BlockedDomainAccessories p2 =
         (case map_of (BlockedDomainAccessories p1) (getUUID plain_uuid (entry_id ?on)) of
            None \<Rightarrow> BlockedDomainAccessories p1
          | Some h \<Rightarrow> AList.update (getUUID plain_uuid (entry_id ?on)) (h\<lparr>isOn := active ?on\<rparr>)
                       (BlockedDomainAccessories p1))"
      "\<forall>r s. map_of (accessories p1) (getUUID plain_uuid (entry_id ?on)) = Some r \<and>
                  Switch (heap p1 r) = Some s \<and> map_of (accessories p1) ''adf'' = None \<longrightarrow>
              map_option On (Switch (heap p2 r)) = Some (active ?on)"
    by (elim exE conjE) (rule that, assumption+)
  have p22: "BlockedDomainAccessories p2 = [(?u, \<lparr>isOn = True, accessory = 0\<rparr>)]"
    using p2(2) by (simp add: p1(3))
  have "map_option On (Switch (heap p2 0)) = Some True"
    using p2(3) s adf by (simp add: p1(2))
  then obtain s2 where "Switch (heap p2 0) = Some s2" "On s2 = True" by auto
  then show ?thesis
    using p1(1,3) p2(1) p22 by (simp add: getOn_def)
qed

theorem absent_domain_untouched_witness:
  "\<exists>p1 h p2.
     didFinishLaunching plain_uuid (remote [\<lparr>entry_id = ''reddit.com'', active = False\<rparr>])
       (configureAccessory (NextDNSPlatform_new cfg0) cached_reddit) = Inr p1 \<and>
     keyed_by_UUID p1 \<and> inj plain_uuid \<and> getUUID plain_uuid ''reddit.com'' \<noteq> ''adf'' \<and>
     ''reddit.com'' \<notin> entry_id ` set [\<lparr>entry_id = ''example.org'', active = True\<rparr>] \<and>
     map_of (BlockedDomainAccessories p1) (getUUID plain_uuid ''reddit.com'') = Some h \<and>
     syncConfig plain_uuid (remote [\<lparr>entry_id = ''example.org'', active = True\<rparr>]) p1 = Inr p2 \<and>
     map_of (BlockedDomainAccessories p2) (getUUID plain_uuid ''reddit.com'') = Some h \<and>
     heap p2 (accessory h) = heap p1 (accessory h)"
proof -
  let ?ex = "\<lparr>entry_id = ''example.org'', active = True\<rparr>"
  let ?u = "getUUID plain_uuid ''reddit.com''"
  let ?h = "\<lparr>isOn = False, accessory = 0\<rparr>"
  from restored_discovery obtain p1 where p1:
      "didFinishLaunching plain_uuid (remote [\<lparr>entry_id = ''reddit.com'', active = False\<rparr>])
          (configureAccessory (NextDNSPlatform_new cfg0) cached_reddit) = Inr p1"
      "keyed_by_UUID p1"
      "BlockedDomainAccessories p1 = [(?u, ?h)]"
    by (elim exE conjE) (rule that, assumption+)
  have i: "inj plain_uuid" by (simp add: inj_def plain_uuid_def)
  have adf: "?u \<noteq> ''adf''" by (simp add: getUUID_def plain_uuid_def)
  have ne: "''reddit.com'' \<notin> entry_id ` set [?ex]" by simp
  have h: "map_of (BlockedDomainAccessories p1) ?u = Some ?h" by (simp add: p1(3))
  from absent_domain_untouched
    [where gen = plain_uuid and net = "remote [?ex]" and es = "[?ex]" and p = p1
       and domain = "''reddit.com''" and h = ?h, OF p1(2) i adf remote_answer ne h]
  obtain p2 where "syncConfig plain_uuid (remote [?ex]) p1 = Inr p2"
      "map_of (BlockedDomainAccessories p2) ?u = Some ?h"
      "heap p2 (accessory ?h) = heap p1 (accessory ?h)"
    by (elim exE conjE) (rule that, assumption+)
  with p1(1,2) i adf ne h show ?thesis by blast
qed

section \<open>What a successful tick does to the cached boolean\<close>

lemma foldl_syncEntry_cached_boolean:
  assumes "map_of (BlockedDomainAccessories p) u = Some h"
    and "\<forall>e \<in> set es. getUUID gen (entry_id e) = u \<longrightarrow> active e = a"
  shows "\<exists>h'. map_of (BlockedDomainAccessories (foldl (syncEntry gen) p es)) u = Some h' \<and>
           accessory h' = accessory h \<and>
           isOn h' = (if \<exists>e \<in> set es. getUUID gen (entry_id e) = u then a else isOn h)"
  using assms
proof (induction es arbitrary: p h)
  case Nil
  then show ?case by simp
next
  case (Cons e es)
  let ?q = "syncEntry gen p e"
  show ?case
  proof (cases "getUUID gen (entry_id e) = u")
    case True
    with Cons.prems have a: "active e = a" by simp
    have q: "map_of (BlockedDomainAccessories ?q) u = Some (h\<lparr>isOn := a\<rparr>)"
      using Cons.prems(1) True a by (simp add: syncEntry_registry update_conv')
    have "\<forall>e \<in> set es. getUUID gen (entry_id e) = u \<longrightarrow> active e = a"
      using Cons.prems(2) by simp
    from Cons.IH [OF q this] obtain h' where h':
      "map_of (BlockedDomainAccessories (foldl (syncEntry gen) ?q es)) u = Some h'"
      "accessory h' = accessory (h\<lparr>isOn := a\<rparr>)"
      "isOn h' = (if \<exists>e \<in> set es. getUUID gen (entry_id e) = u then a else isOn (h\<lparr>isOn := a\<rparr>))"
      by (elim exE conjE) (rule that, assumption+)
    from h'(3) have "isOn h' = a" by (simp split: if_splits)
    with h'(1,2) True show ?thesis by simp
  next
    case False
    have q: "map_of (BlockedDomainAccessories ?q) u = Some h"
      using Cons.prems(1) False by (simp add: syncEntry_registry update_conv' split: option.splits)
    have "\<forall>e \<in> set es. getUUID gen (entry_id e) = u \<longrightarrow> active e = a"
      using Cons.prems(2) by simp
    from Cons.IH [OF q this] obtain h' where h':
      "map_of (BlockedDomainAccessories (foldl (syncEntry gen) ?q es)) u = Some h'"
      "accessory h' = accessory h"
      "isOn h' = (if \<exists>e \<in> set es. getUUID gen (entry_id e) = u then a else isOn h)"
      by (elim exE conjE) (rule that, assumption+)
    with False show ?thesis by simp
  qed
qed

text \<open>
  The cached boolean, for its part, follows every successful read: a domain with a handler
  and an entry in a denylist without repeated ids has \<open>getOn\<close> return the entry's flag after
  the tick, on a new accessory and on a restored one alike.
\<close>

lemma tick_sets_cached_boolean:
  assumes "net (profile_request (apiKey (config p)) (profileId (config p))) =
             Response True st (Parsed (Value \<lparr>denylist = Value es\<rparr>))"
    and "map_of (BlockedDomainAccessories p) (getUUID gen domain) = Some h"
    and "inj gen" and "distinct (map entry_id es)"
    and "\<lparr>entry_id = domain, active = a\<rparr> \<in> set es"
  shows "\<exists>q h'. syncConfig gen net p = Inr q \<and>
           map_of (BlockedDomainAccessories q) (getUUID gen domain) = Some h' \<and>
           getOn h' = Inr a"
proof -
  let ?x = "send (profile_request (apiKey (config p)) (profileId (config p)))
              (log_line Debug ''syncConfig called'' p)"
  have 1: "syncConfig gen net p = Inr ((foldl (syncEntry gen) ?x es)\<lparr>timers := timers p @ [60000]\<rparr>)"
    using assms(1) by (rule syncConfig_ok)
  have 2: "\<forall>e \<in> set es. getUUID gen (entry_id e) = getUUID gen domain \<longrightarrow> active e = a"
  proof (intro ballI impI)
    fix e assume e: "e \<in> set es" "getUUID gen (entry_id e) = getUUID gen domain"
    then have "entry_id e = domain" using assms(3) by (auto dest: getUUID_inj)
    with e(1) assms(4,5) have "e = \<lparr>entry_id = domain, active = a\<rparr>"
      by (metis DenylistEntry.select_convs(1) distinct_map inj_onD)
    then show "active e = a" by simp
  qed
  have 3: "map_of (BlockedDomainAccessories ?x) (getUUID gen domain) = Some h"
    using assms(2) by simp
  have 4: "\<exists>e \<in> set es. getUUID gen (entry_id e) = getUUID gen domain"
    using assms(5) by (intro bexI [of _ "\<lparr>entry_id = domain, active = a\<rparr>"]) simp_all
  from foldl_syncEntry_cached_boolean [OF 3 2]
  obtain h' where h': "map_of (BlockedDomainAccessories (foldl (syncEntry gen) ?x es))
        (getUUID gen domain) = Some h'"
      "isOn h' = (if \<exists>e \<in> set es. getUUID gen (entry_id e) = getUUID gen domain
                  then a else isOn h)"
    by (elim exE conjE) (rule that, assumption+)
  from h'(2) 4 have "isOn h' = a" by simp
  with 1 h'(1) show ?thesis by (simp add: getOn_def)
qed

section \<open>A set on the restored switch\<close>

theorem setOn_optimistic_witness:
  "\<exists>p1 p'.
     didFinishLaunching plain_uuid (remote [\<lparr>entry_id = ''reddit.com'', active = False\<rparr>])
       (configureAccessory (NextDNSPlatform_new cfg0) cached_reddit) = Inr p1 \<and>
     map_of (BlockedDomainAccessories p1) (getUUID plain_uuid ''reddit.com'') =
       Some \<lparr>isOn = False, accessory = 0\<rparr> \<and>
     setOn p1 (getUUID plain_uuid ''reddit.com'') True = Inr p' \<and>
     map_of (BlockedDomainAccessories p') (getUUID plain_uuid ''reddit.com'') =
       Some \<lparr>isOn = True, accessory = 0\<rparr> \<and>
     getOn \<lparr>isOn = True, accessory = 0\<rparr> = Inr True \<and>
     length (requests p') = Suc (length (requests p1)) \<and>
     req_method (last (requests p')) = PATCH \<and>
     req_body (last (requests p')) = Some [(''active'', JBool True)]"
proof -
  let ?u = "getUUID plain_uuid ''reddit.com''"
  let ?h = "\<lparr>isOn = False, accessory = 0\<rparr>"
  from restored_discovery obtain p1 where p1:
      "didFinishLaunching plain_uuid (remote [\<lparr>entry_id = ''reddit.com'', active = False\<rparr>])
          (configureAccessory (NextDNSPlatform_new cfg0) cached_reddit) = Inr p1"
      "BlockedDomainAccessories p1 = [(?u, ?h)]"
    by (elim exE conjE) (rule that, assumption+)
  have h: "map_of (BlockedDomainAccessories p1) ?u = Some ?h" by (simp add: p1(2))
  from setOn_optimistic [where v = True, OF h refl]
  obtain p' where p': "setOn p1 ?u True = Inr p'"
      "map_of (BlockedDomainAccessories p') ?u = Some (?h\<lparr>isOn := True\<rparr>)"
      "getOn (?h\<lparr>isOn := True\<rparr>) = Inr True"
      "requests p' = requests p1 @ [patch_request p1 (context_domain (heap p1 (accessory ?h))) True]"
      "req_method (patch_request p1 (context_domain (heap p1 (accessory ?h))) True) = PATCH"
      "req_body (patch_request p1 (context_domain (heap p1 (accessory ?h))) True) =
         Some [(''active'', JBool True)]"
    by (elim exE conjE) (rule that, assumption+)
  from p1(1) h p' show ?thesis by simp
qed

end
